theory Spec2Isabelle
  imports Complex_Main
begin

section \<open>JavaScript values\<close>

text \<open>
  The plugin works on loosely typed author input: the result of the YAML loader and the
  frontmatter of a document. These values are modelled as plain data. A number is a
  finite value or one of the three non-finite values; a finite value is kept as a
  rational, which stands for the double nearest to it. A text is kept as the bytes of
  its UTF-8 encoding. An object is the list of its own
  enumerable properties in insertion order; a property holding \<open>undefined\<close> is a list
  entry whose value is \<open>JUndefined\<close>. Reading a property of such a value gives its own
  property: the fields that the plugin reads from author input, and the fields of its
  schemas, name nothing that objects inherit. The registry of markers, whose keys
  authors choose, is modelled with the properties it inherits.
\<close>

datatype jsnum = Fin rat | NaN | PosInf | NegInf

datatype jsvalue =
    JUndefined
  | JNull
  | JBool bool
  | JNum jsnum
  | JStr string
  | JArr "jsvalue list"
  | JObj "(string \<times> jsvalue) list"

datatype jstype = TUndefined | TObject | TBoolean | TNumber | TString

fun typeof :: "jsvalue \<Rightarrow> jstype" where
  "typeof JUndefined = TUndefined"
| "typeof JNull = TObject"
| "typeof (JBool b) = TBoolean"
| "typeof (JNum n) = TNumber"
| "typeof (JStr s) = TString"
| "typeof (JArr xs) = TObject"
| "typeof (JObj kvs) = TObject"

text \<open>\<open>truthy v\<close> is the boolean coercion of \<open>v\<close>, as in \<open>!!v\<close>.\<close>

fun truthy :: "jsvalue \<Rightarrow> bool" where
  "truthy JUndefined = False"
| "truthy JNull = False"
| "truthy (JBool b) = b"
| "truthy (JNum n) = (n \<noteq> Fin 0 \<and> n \<noteq> NaN)"
| "truthy (JStr s) = (s \<noteq> [])"
| "truthy (JArr xs) = True"
| "truthy (JObj kvs) = True"

definition digit_char :: "nat \<Rightarrow> char" where
  "digit_char d = ''0123456789'' ! d"

function nat_to_string :: "nat \<Rightarrow> string" where
  "nat_to_string n =
     (if n < 10 then [digit_char n] else nat_to_string (n div 10) @ [digit_char (n mod 10)])"
  by pat_completeness auto
termination
  by (relation "measure id") auto

declare nat_to_string.simps [simp del]

text \<open>\<open>Object.keys\<close> and \<open>Object.values\<close>; an array's keys are its indices.\<close>

fun Object_keys :: "jsvalue \<Rightarrow> string list" where
  "Object_keys (JObj kvs) = map fst kvs"
| "Object_keys (JArr xs) = map nat_to_string [0 ..< length xs]"
| "Object_keys v = []"

fun Object_values :: "jsvalue \<Rightarrow> jsvalue list" where
  "Object_values (JObj kvs) = map snd kvs"
| "Object_values (JArr xs) = xs"
| "Object_values v = []"

definition is_digit :: "char \<Rightarrow> bool" where
  "is_digit c = (c \<in> set ''0123456789'')"

definition digit_val :: "char \<Rightarrow> nat" where
  "digit_val c = of_char c - 48"

definition digits_val :: "string \<Rightarrow> nat" where
  "digits_val s = foldl (\<lambda>acc c. 10 * acc + digit_val c) 0 s"

text \<open>
  \<open>array_index k\<close> is the index a property key denotes on an array: a canonical decimal
  numeral, without leading zeros.
\<close>

definition array_index :: "string \<Rightarrow> nat option" where
  "array_index k =
     (if k \<noteq> [] \<and> list_all is_digit k \<and> (k = ''0'' \<or> hd k \<noteq> CHR ''0'')
      then Some (digits_val k) else None)"

text \<open>\<open>getprop v k\<close> is the property read \<open>v[k]\<close> on an object or an array.\<close>

fun getprop :: "jsvalue \<Rightarrow> string \<Rightarrow> jsvalue" where
  "getprop (JObj kvs) k = (case map_of kvs k of Some v \<Rightarrow> v | None \<Rightarrow> JUndefined)"
| "getprop (JArr xs) k =
     (if k = ''length'' then JNum (Fin (of_nat (length xs)))
      else case array_index k of
             Some i \<Rightarrow> (if i < length xs then xs ! i else JUndefined)
           | None \<Rightarrow> JUndefined)"
| "getprop v k = JUndefined"

text \<open>\<open>Array.isArray\<close>.\<close>

fun isArray :: "jsvalue \<Rightarrow> bool" where
  "isArray (JArr xs) = True"
| "isArray v = False"

section \<open>Regular expressions\<close>

text \<open>
  The validation patterns of \<open>C.regExp\<close> are kept as regular expressions and run by
  a matcher built on derivatives. \<open>rx_test\<close> is \<open>RegExp.prototype.test\<close> for a
  pattern without anchors: some substring matches. \<open>rx_test_end\<close> is the same for a
  pattern that ends in \<open>$\<close>: some suffix matches.
\<close>

datatype rx =
    Nothing
  | Empty
  | OneOf "char list"
  | Alt rx rx
  | Seq rx rx
  | Star rx

definition Plus :: "rx \<Rightarrow> rx" where
  "Plus r = Seq r (Star r)"

definition Opt :: "rx \<Rightarrow> rx" where
  "Opt r = Alt r Empty"

fun nullable :: "rx \<Rightarrow> bool" where
  "nullable Nothing = False"
| "nullable Empty = True"
| "nullable (OneOf cs) = False"
| "nullable (Alt r s) = (nullable r \<or> nullable s)"
| "nullable (Seq r s) = (nullable r \<and> nullable s)"
| "nullable (Star r) = True"

fun deriv :: "char \<Rightarrow> rx \<Rightarrow> rx" where
  "deriv c Nothing = Nothing"
| "deriv c Empty = Nothing"
| "deriv c (OneOf cs) = (if c \<in> set cs then Empty else Nothing)"
| "deriv c (Alt r s) = Alt (deriv c r) (deriv c s)"
| "deriv c (Seq r s) =
     (if nullable r then Alt (Seq (deriv c r) s) (deriv c s) else Seq (deriv c r) s)"
| "deriv c (Star r) = Seq (deriv c r) (Star r)"

fun rx_full :: "rx \<Rightarrow> string \<Rightarrow> bool" where
  "rx_full r [] = nullable r"
| "rx_full r (c # cs) = rx_full (deriv c r) cs"

fun rx_prefix :: "rx \<Rightarrow> string \<Rightarrow> bool" where
  "rx_prefix r [] = nullable r"
| "rx_prefix r (c # cs) = (nullable r \<or> rx_prefix (deriv c r) cs)"

fun rx_test :: "rx \<Rightarrow> string \<Rightarrow> bool" where
  "rx_test r [] = nullable r"
| "rx_test r (c # cs) = (rx_prefix r (c # cs) \<or> rx_test r cs)"

fun rx_test_end :: "rx \<Rightarrow> string \<Rightarrow> bool" where
  "rx_test_end r [] = nullable r"
| "rx_test_end r (c # cs) = (rx_full r (c # cs) \<or> rx_test_end r cs)"

definition rx_digit :: rx where
  "rx_digit = OneOf ''0123456789''"

definition rx_lower :: rx where
  "rx_lower = OneOf ''abcdefghijklmnopqrstuvwxyz''"

definition rx_hex :: rx where
  "rx_hex = OneOf ''0123456789ABCDEFabcdef''"

text \<open>
  The white space of JavaScript, which the class \<open>\s\<close> matches and \<open>parseFloat\<close> and
  \<open>parseInt\<close> skip: tab, LF, VT, FF, CR and space, and U+00A0, U+1680, U+2000 to
  U+200A, U+2028, U+2029, U+202F, U+205F, U+3000 and U+FEFF, each as its UTF-8 bytes.
\<close>

definition white_space :: "string list" where
  "white_space =
     [[CHR 0x09], [CHR 0x0A], [CHR 0x0B], [CHR 0x0C], [CHR 0x0D], [CHR 0x20],
      [CHR 0xC2, CHR 0xA0],
      [CHR 0xE1, CHR 0x9A, CHR 0x80],
      [CHR 0xE2, CHR 0x80, CHR 0x80], [CHR 0xE2, CHR 0x80, CHR 0x81],
      [CHR 0xE2, CHR 0x80, CHR 0x82], [CHR 0xE2, CHR 0x80, CHR 0x83],
      [CHR 0xE2, CHR 0x80, CHR 0x84], [CHR 0xE2, CHR 0x80, CHR 0x85],
      [CHR 0xE2, CHR 0x80, CHR 0x86], [CHR 0xE2, CHR 0x80, CHR 0x87],
      [CHR 0xE2, CHR 0x80, CHR 0x88], [CHR 0xE2, CHR 0x80, CHR 0x89],
      [CHR 0xE2, CHR 0x80, CHR 0x8A],
      [CHR 0xE2, CHR 0x80, CHR 0xA8], [CHR 0xE2, CHR 0x80, CHR 0xA9],
      [CHR 0xE2, CHR 0x80, CHR 0xAF],
      [CHR 0xE2, CHR 0x81, CHR 0x9F],
      [CHR 0xE3, CHR 0x80, CHR 0x80],
      [CHR 0xEF, CHR 0xBB, CHR 0xBF]]"

text \<open>\<open>rx_text s\<close> matches the text \<open>s\<close>, and \<open>rx_space\<close> one white space character.\<close>

definition rx_text :: "string \<Rightarrow> rx" where
  "rx_text s = foldr (\<lambda>c r. Seq (OneOf [c]) r) s Empty"

definition rx_space :: rx where
  "rx_space = foldr (\<lambda>w r. Alt (rx_text w) r) white_space Nothing"

text \<open>
  \<open>space_prefix s\<close> is the number of bytes of the white space character that \<open>s\<close>
  starts with, 0 when it starts with none; \<open>skip_space\<close> drops the white space at the
  start of a text.
\<close>

definition space_prefix :: "string \<Rightarrow> nat" where
  "space_prefix s =
     (case find (\<lambda>w. take (length w) s = w) white_space of
        Some w \<Rightarrow> length w
      | None \<Rightarrow> 0)"

fun skip_space :: "string \<Rightarrow> string" where
  "skip_space [] = []"
| "skip_space (c # cs) =
     (if space_prefix (c # cs) = 0 then c # cs
      else skip_space (drop (space_prefix (c # cs) - 1) cs))"

section \<open>Constants\<close>

text \<open>\<open>C.regExp.coordinatesValidation\<close> is \<open>/[0-9]+\s*,\s*[0-9]+/\<close>.\<close>

definition coordinatesValidation :: rx where
  "coordinatesValidation =
     Seq (Plus rx_digit) (Seq (Star rx_space) (Seq (OneOf '','')
       (Seq (Star rx_space) (Plus rx_digit))))"

text \<open>\<open>C.regExp.iconValidation\<close> is \<open>/([a-z]+:)?[a-z]+([\-][a-z]+)*/\<close>.\<close>

definition iconValidation :: rx where
  "iconValidation =
     Seq (Opt (Seq (Plus rx_lower) (OneOf '':'')))
       (Seq (Plus rx_lower) (Star (Seq (OneOf ''-'') (Plus rx_lower))))"

text \<open>
  \<open>C.regExp.hexColourValidation\<close> is \<open>/([0-9A-F]{3}){1,2}$/i\<close>; it is run with
  \<open>rx_test_end\<close>.
\<close>

definition hexColourValidation :: rx where
  "hexColourValidation =
     (let h3 = Seq rx_hex (Seq rx_hex rx_hex) in Alt h3 (Seq h3 h3))"

text \<open>\<open>C.map.default\<close> and \<open>C.marker.default\<close>.\<close>

definition default_minZoom :: rat where "default_minZoom = 0"
definition default_maxZoom :: rat where "default_maxZoom = 2"
definition default_zoomDelta :: rat where "default_zoomDelta = 1 / 2"
definition default_height :: rat where "default_height = 600"
definition default_scale :: rat where "default_scale = 1"
definition default_unit :: string where "default_unit = ''''"
definition default_colour :: string where "default_colour = ''#21409a''"
definition default_icon :: string where "default_icon = ''circle-small''"

section \<open>Utilities\<close>

definition isNonEmptyObject :: "jsvalue \<Rightarrow> bool" where
  "isNonEmptyObject v =
     (if \<not> truthy v \<or> typeof v \<noteq> TObject then False
      else length (Object_keys v) > 0)"

definition clamp :: "rat \<Rightarrow> rat \<Rightarrow> rat \<Rightarrow> rat" where
  "clamp v lo hi = min (max v lo) hi"

section \<open>Validators\<close>

definition stringValidator :: "jsvalue \<Rightarrow> bool" where
  "stringValidator v = (typeof v = TString)"

text \<open>
  \<open>toString_truthy v\<close> tells whether \<open>v?.toString()\<close> is a non-empty string:
  \<open>undefined\<close> and \<open>null\<close> give \<open>undefined\<close>, a boolean, a number and a plain object
  give a non-empty text, and an array gives its elements joined by commas, where
  \<open>undefined\<close> and \<open>null\<close> elements count as empty.
\<close>

fun toString_truthy :: "jsvalue \<Rightarrow> bool" where
  "toString_truthy JUndefined = False"
| "toString_truthy JNull = False"
| "toString_truthy (JBool b) = True"
| "toString_truthy (JNum n) = True"
| "toString_truthy (JStr s) = (s \<noteq> [])"
| "toString_truthy (JArr []) = False"
| "toString_truthy (JArr [x]) = toString_truthy x"
| "toString_truthy (JArr (x # y # xs)) = True"
| "toString_truthy (JObj kvs) = True"

definition sourcevalidator :: "jsvalue \<Rightarrow> bool" where
  "sourcevalidator v = (if typeof v = TString then truthy v else toString_truthy v)"

text \<open>\<open>Number.isFinite\<close> is false on anything that is not a number.\<close>

fun numberValidator :: "jsvalue \<Rightarrow> bool" where
  "numberValidator (JNum (Fin r)) = True"
| "numberValidator v = False"

fun positiveNumberValidator :: "jsvalue \<Rightarrow> bool" where
  "positiveNumberValidator (JNum (Fin r)) = (r > 0)"
| "positiveNumberValidator v = False"

fun coordinatesValidator :: "jsvalue \<Rightarrow> bool" where
  "coordinatesValidator (JStr s) = rx_test coordinatesValidation s"
| "coordinatesValidator v = False"

fun iconValidator :: "jsvalue \<Rightarrow> bool" where
  "iconValidator (JStr s) = rx_test iconValidation s"
| "iconValidator v = False"

fun colourValidator :: "jsvalue \<Rightarrow> bool" where
  "colourValidator (JStr s) = rx_test_end hexColourValidation s"
| "colourValidator v = False"

section \<open>Schemas\<close>

text \<open>
  A schema lists its fields in the order of \<open>Object.entries\<close>; a field without a
  \<open>required\<close> flag has \<open>required = False\<close>.
\<close>

record schema_field =
  validator :: "jsvalue \<Rightarrow> bool"
  required :: bool

type_synonym schema = "(string \<times> schema_field) list"

definition markerSchema :: schema where
  "markerSchema =
     [(''mapName'', \<lparr>validator = stringValidator, required = False\<rparr>),
      (''coordinates'', \<lparr>validator = coordinatesValidator, required = True\<rparr>),
      (''icon'', \<lparr>validator = iconValidator, required = False\<rparr>),
      (''colour'', \<lparr>validator = colourValidator, required = False\<rparr>),
      (''minZoom'', \<lparr>validator = numberValidator, required = False\<rparr>)]"

definition mapSchema :: schema where
  "mapSchema =
     [(''name'', \<lparr>validator = stringValidator, required = False\<rparr>),
      (''image'', \<lparr>validator = sourcevalidator, required = True\<rparr>),
      (''height'', \<lparr>validator = numberValidator, required = False\<rparr>),
      (''minZoom'', \<lparr>validator = numberValidator, required = False\<rparr>),
      (''maxZoom'', \<lparr>validator = numberValidator, required = False\<rparr>),
      (''defaultZoom'', \<lparr>validator = numberValidator, required = False\<rparr>),
      (''zoomDelta'', \<lparr>validator = positiveNumberValidator, required = False\<rparr>),
      (''scale'', \<lparr>validator = numberValidator, required = False\<rparr>),
      (''unit'', \<lparr>validator = stringValidator, required = False\<rparr>)]"

definition schemaValidatorFactory :: "schema \<Rightarrow> jsvalue \<Rightarrow> bool" where
  "schemaValidatorFactory schema v =
     (if \<not> isNonEmptyObject v then False
      else list_all (\<lambda>b. b)
             (map (\<lambda>(key, validate).
                     (getprop v key = JUndefined \<and> \<not> required validate)
                     \<or> validator validate (getprop v key))
                  schema))"

definition SchemaValidator_marker :: "jsvalue \<Rightarrow> bool" where
  "SchemaValidator_marker = schemaValidatorFactory markerSchema"

definition SchemaValidator_map :: "jsvalue \<Rightarrow> bool" where
  "SchemaValidator_map = schemaValidatorFactory mapSchema"

section \<open>Exceptions\<close>

text \<open>
  What the code throws: the exception of the YAML loader, an \<open>Error\<close> with the message
  that the source gives it, the \<open>TypeError\<close> of the runtime for a call of something
  that is not a function or a spread of something that is not iterable, and the
  rejection of a failed image load.
\<close>

datatype error = YAMLException | Error string | TypeError | ImageError

section \<open>Markers\<close>

text \<open>
  \<open>SchemaValidator.marker\<close> is a type guard: a value it accepts is read as a
  \<open>MarkerObject\<close> from then on. The records below are the interfaces of the source;
  \<open>str_field\<close> and \<open>num_field\<close> read a field at its declared type. The two fields
  \<open>minZoom\<close> and \<open>name\<close> of a marker carry the prefix \<open>marker_\<close>, since a map
  declaration has fields of the same names.
\<close>

definition str_field :: "jsvalue \<Rightarrow> string \<Rightarrow> string option" where
  "str_field v k = (case getprop v k of JStr s \<Rightarrow> Some s | _ \<Rightarrow> None)"

definition num_field :: "jsvalue \<Rightarrow> string \<Rightarrow> rat option" where
  "num_field v k = (case getprop v k of JNum (Fin r) \<Rightarrow> Some r | _ \<Rightarrow> None)"

record MarkerEntry =
  mapName :: "string option"
  coordinates :: string
  icon :: "string option"
  colour :: "string option"
  marker_minZoom :: "rat option"
  marker_name :: string
  link :: string

definition isProperEntry :: "jsvalue \<Rightarrow> bool" where
  "isProperEntry entry =
     (if \<not> isNonEmptyObject entry then False
      else list_all (\<lambda>property. typeof property = TString \<or> typeof property = TNumber)
             (Object_values entry))"

definition isNotNull :: "'a option \<Rightarrow> bool" where
  "isNotNull v = (v \<noteq> None)"

definition parseMarkerFromEntry :: "jsvalue \<Rightarrow> string \<Rightarrow> string \<Rightarrow> MarkerEntry option" where
  "parseMarkerFromEntry entry nm lnk =
     (if \<not> isProperEntry entry then None
      else if \<not> SchemaValidator_marker entry then None
      else Some \<lparr>mapName = str_field entry ''mapName'',
                 coordinates = (case str_field entry ''coordinates'' of Some s \<Rightarrow> s | None \<Rightarrow> []),
                 icon = str_field entry ''icon'',
                 colour = str_field entry ''colour'',
                 marker_minZoom = num_field entry ''minZoom'',
                 marker_name = nm,
                 link = lnk\<rparr>)"

text \<open>
  The data of a file that the plugin reads: \<open>file.path\<close>, \<open>file.data.slug\<close> and
  \<open>file.data.frontmatter\<close>, of which the title and the \<open>marker\<close> entry are used.
\<close>

record frontmatter =
  title :: string
  marker :: jsvalue

record vfile =
  path :: string
  slug :: "string option"
  frontmatter :: "frontmatter option"

text \<open>
  \<open>LEAFLET_MAP_PLUGIN_DATA.markerMap\<close>, the registry shared by all invocations, is
  passed in and returned. It is an object literal with the one bucket
  \<open>notDefinedMap\<close>; the map below holds the properties of its own. Reading a key
  that it does not own gives what \<open>Object.prototype\<close> holds under that key:
  \<open>inherited_keys\<close> are the property names of \<open>Object.prototype\<close>, and what it holds
  under them is a function or an object, never \<open>undefined\<close> or \<open>null\<close> and never an
  array.
\<close>

type_synonym markerMap = "string \<rightharpoonup> MarkerEntry list"

definition initial_markerMap :: markerMap where
  "initial_markerMap = [''notDefinedMap'' \<mapsto> []]"

definition inherited_keys :: "string list" where
  "inherited_keys =
     [''constructor'', ''__defineGetter__'', ''__defineSetter__'', ''hasOwnProperty'',
      ''__lookupGetter__'', ''__lookupSetter__'', ''isPrototypeOf'', ''propertyIsEnumerable'',
      ''toString'', ''valueOf'', ''__proto__'', ''toLocaleString'']"

text \<open>\<open>markerMap_get reg k\<close> is the value of \<open>markerMap[k]\<close>.\<close>

datatype slot = Undefined | Bucket "MarkerEntry list" | Inherited

definition markerMap_get :: "markerMap \<Rightarrow> string \<Rightarrow> slot" where
  "markerMap_get reg k =
     (case reg k of
        Some ms \<Rightarrow> Bucket ms
      | None \<Rightarrow> if k \<in> set inherited_keys then Inherited else Undefined)"

text \<open>
  \<open>push_to reg k m\<close> is \<open>markerMap[k]?.push(m)\<close>: nothing happens on \<open>undefined\<close>,
  and an inherited value has no \<open>push\<close> to call.
\<close>

definition push_to :: "markerMap \<Rightarrow> string \<Rightarrow> MarkerEntry \<Rightarrow> error + markerMap" where
  "push_to reg k m =
     (case markerMap_get reg k of
        Undefined \<Rightarrow> Inr reg
      | Bucket ms \<Rightarrow> Inr (reg(k \<mapsto> ms @ [m]))
      | Inherited \<Rightarrow> Inl TypeError)"

text \<open>The body of the \<open>forEach\<close> of \<open>buildMarkerData\<close>.\<close>

definition store_marker :: "markerMap \<Rightarrow> MarkerEntry \<Rightarrow> error + markerMap" where
  "store_marker reg m =
     (case mapName m of
        None \<Rightarrow> push_to reg ''notDefinedMap'' m
      | Some k \<Rightarrow>
          (if k = [] then push_to reg ''notDefinedMap'' m
           else push_to (if markerMap_get reg k = Undefined then reg(k \<mapsto> []) else reg) k m))"

text \<open>The \<open>forEach\<close> itself: an exception ends it, and the build with it.\<close>

fun store_markers :: "markerMap \<Rightarrow> MarkerEntry list \<Rightarrow> error + markerMap" where
  "store_markers reg [] = Inr reg"
| "store_markers reg (m # ms) =
     (case store_marker reg m of Inl e \<Rightarrow> Inl e | Inr reg' \<Rightarrow> store_markers reg' ms)"

definition buildMarkerData :: "markerMap \<Rightarrow> vfile \<Rightarrow> error + markerMap" where
  "buildMarkerData reg file =
     (case (slug file, frontmatter file) of
        (Some sl, Some fm) \<Rightarrow>
          (if sl = [] \<or> title fm = [] \<or> \<not> truthy (marker fm) \<or> \<not> isArray (marker fm)
           then Inr reg
           else store_markers reg
                  (map the (filter isNotNull
                     (map (\<lambda>entry. parseMarkerFromEntry entry (title fm) sl)
                        (Object_values (marker fm))))))
      | _ \<Rightarrow> Inr reg)"

section \<open>The content tree\<close>

text \<open>
  A node of the tree has a type, and optionally a tag name, a text value, children and
  properties. A property value is a text, a number or a list of texts (the class list).
\<close>

datatype attr = AStr string | ANum rat | AList "string list"

datatype node =
  Node (ntype: string) (tagName: "string option") (nvalue: "string option")
       (children: "node list option") (properties: "(string \<times> attr) list option")

text \<open>
  The collaborators outside the plugin: the YAML loader, which throws on a text it
  cannot parse, and the two path functions. \<open>transformLink ext s v\<close> stands for
  \<open>transformLink(s, v.toString(), {strategy: "shortest", allSlugs: ctx.allSlugs})\<close>.
\<close>

record externals =
  load :: "string \<Rightarrow> error + jsvalue"
  transformLink :: "string \<Rightarrow> jsvalue \<Rightarrow> string"
  resolveRelative :: "string \<Rightarrow> string \<Rightarrow> string"

text \<open>\<open>String.prototype.replace\<close> with a text pattern: the first occurrence only.\<close>

fun replace_first :: "string \<Rightarrow> string \<Rightarrow> string \<Rightarrow> string" where
  "replace_first pat rep [] = (if pat = [] then rep else [])"
| "replace_first pat rep (c # cs) =
     (if take (length pat) (c # cs) = pat then rep @ drop (length pat) (c # cs)
      else c # replace_first pat rep cs)"

definition buildMarkerElement :: "externals \<Rightarrow> MarkerEntry \<Rightarrow> string \<Rightarrow> rat \<Rightarrow> node" where
  "buildMarkerElement ext m currentSlug mapMinZoom =
     Node ''element'' (Some ''div'') None (Some [])
       (Some [(''class'', AList [''leaflet-marker'']),
              (''data-name'', AStr (marker_name m)),
              (''data-link'', AStr (resolveRelative ext currentSlug (link m))),
              (''data-coordinates'', AStr (coordinates m)),
              (''data-icon'',
                 AStr (replace_first ''lucide-'' []
                         (case icon m of Some i \<Rightarrow> i | None \<Rightarrow> default_icon))),
              (''data-colour'', AStr (case colour m of Some c \<Rightarrow> c | None \<Rightarrow> default_colour)),
              (''data-min-zoom'',
                 ANum (case marker_minZoom m of Some z \<Rightarrow> z | None \<Rightarrow> mapMinZoom))])"

section \<open>Maps\<close>

text \<open>The field \<open>image\<close> of a map declaration is \<open>image_src\<close> here.\<close>

record MapObject =
  name :: "string option"
  image_src :: jsvalue
  height :: "rat option"
  minZoom :: "rat option"
  maxZoom :: "rat option"
  defaultZoom :: "rat option"
  zoomDelta :: "rat option"
  scale :: "rat option"
  unit :: "string option"

fun source :: "node \<Rightarrow> string" where
  "source (Node ty tg val None props) = (if ty = ''text'' \<and> val \<noteq> None then the val else [])"
| "source (Node ty tg val (Some cs) props) =
     (if ty = ''text'' \<and> val \<noteq> None then the val else concat (map source cs))"

text \<open>
  \<open>to_double r\<close> is the number that a literal of the value \<open>r\<close> denotes: beyond the
  largest double it is an infinity, and up to half of the smallest double it is zero.
  In between, the value of the literal is kept as it is written: its rounding to the
  nearest double is not modelled, and the build side only tests such a number for being
  finite, compares it and copies it.
\<close>

definition to_double :: "rat \<Rightarrow> jsnum" where
  "to_double r =
     (if \<bar>r\<bar> \<ge> 2 ^ 1024 - 2 ^ 970 then (if r < 0 then NegInf else PosInf)
      else if \<bar>r\<bar> \<le> 1 / 2 ^ 1075 then Fin 0
      else Fin r)"

text \<open>
  \<open>parseFloat\<close> on a text: white space at the start is skipped, then the longest
  prefix that is a decimal literal (sign, digits, fraction, exponent) or \<open>Infinity\<close>
  is read; without such a prefix the result is \<open>NaN\<close>.
\<close>

definition pow10 :: "int \<Rightarrow> rat" where
  "pow10 e = (if e \<ge> 0 then 10 ^ nat e else 1 / 10 ^ nat (- e))"

definition parse_exponent :: "string \<Rightarrow> int" where
  "parse_exponent s =
     (case s of
        [] \<Rightarrow> 0
      | e # r \<Rightarrow>
          (if e = CHR ''e'' \<or> e = CHR ''E'' then
             (case r of
                [] \<Rightarrow> 0
              | c # r' \<Rightarrow>
                  (if c = CHR ''-'' then - int (digits_val (takeWhile is_digit r'))
                   else if c = CHR ''+'' then int (digits_val (takeWhile is_digit r'))
                   else int (digits_val (takeWhile is_digit r))))
           else 0))"

definition parseFloat :: "string \<Rightarrow> jsnum" where
  "parseFloat s =
     (let t = skip_space s;
          neg = (t \<noteq> [] \<and> hd t = CHR ''-'');
          u = (if t \<noteq> [] \<and> (hd t = CHR ''-'' \<or> hd t = CHR ''+'') then tl t else t)
      in if take 8 u = ''Infinity'' then (if neg then NegInf else PosInf)
         else
           let ip = takeWhile is_digit u;
               r1 = dropWhile is_digit u;
               fp = (case r1 of [] \<Rightarrow> []
                     | c # r \<Rightarrow> if c = CHR ''.'' then takeWhile is_digit r else []);
               r2 = (case r1 of [] \<Rightarrow> []
                     | c # r \<Rightarrow> if c = CHR ''.'' then dropWhile is_digit r else r1)
           in if ip = [] \<and> fp = [] then NaN
              else
                let m = (of_nat (digits_val ip) + of_nat (digits_val fp) / 10 ^ length fp)
                          * pow10 (parse_exponent r2)
                in to_double (if neg then - m else m))"

text \<open>\<open>nullish_or v d\<close> is \<open>v ?? d\<close>.\<close>

definition nullish_or :: "jsvalue \<Rightarrow> jsvalue \<Rightarrow> jsvalue" where
  "nullish_or v d = (if v = JUndefined \<or> v = JNull then d else v)"

text \<open>
  \<open>parseFloat_toString v\<close> is \<open>parseFloat(v.toString())\<close> for a text or a number
  \<open>v\<close>, the only values it is called on: a number survives the round trip through
  its text.
\<close>

fun parseFloat_toString :: "jsvalue \<Rightarrow> jsnum" where
  "parseFloat_toString (JStr s) = parseFloat s"
| "parseFloat_toString (JNum n) = n"
| "parseFloat_toString v = NaN"

text \<open>The object literal that \<open>parseMapFromNode\<close> builds from a view.\<close>

definition view_object :: "jsvalue \<Rightarrow> jsvalue" where
  "view_object view =
     JObj [(''name'', getprop view ''mapName''),
           (''image'', getprop view ''image''),
           (''height'', getprop view ''height''),
           (''minZoom'', getprop view ''minZoom''),
           (''maxZoom'', getprop view ''maxZoom''),
           (''defaultZoom'', getprop view ''defaultZoom''),
           (''zoomDelta'', getprop view ''zoomDelta''),
           (''scale'', JNum (parseFloat_toString (nullish_or (getprop view ''scale'') (JStr [])))),
           (''unit'', getprop view ''unit'')]"

text \<open>
  \<open>SchemaValidator.map\<close> is a type guard as well: the object it accepts is read as
  a \<open>MapObject\<close>.
\<close>

definition as_MapObject :: "jsvalue \<Rightarrow> MapObject" where
  "as_MapObject object =
     \<lparr>name = str_field object ''name'',
      image_src = getprop object ''image'',
      height = num_field object ''height'',
      minZoom = num_field object ''minZoom'',
      maxZoom = num_field object ''maxZoom'',
      defaultZoom = num_field object ''defaultZoom'',
      zoomDelta = num_field object ''zoomDelta'',
      scale = num_field object ''scale'',
      unit = str_field object ''unit''\<rparr>"

text \<open>The callback that \<open>parseMapFromNode\<close> maps over the views.\<close>

definition mapFromView :: "jsvalue \<Rightarrow> MapObject option" where
  "mapFromView view =
     (if \<not> isProperEntry view then None
      else if \<not> truthy (getprop view ''type'') \<or> getprop view ''type'' \<noteq> JStr ''leaflet-map''
      then None
      else if \<not> SchemaValidator_map (view_object view) then None
      else Some (as_MapObject (view_object view)))"

text \<open>\<open>at0 xs\<close> is \<open>xs.at(0)\<close> on a list without null entries.\<close>

definition at0 :: "'a option list \<Rightarrow> 'a option" where
  "at0 xs = (case xs of [] \<Rightarrow> None | x # _ \<Rightarrow> x)"

definition parseMapFromNode :: "externals \<Rightarrow> node \<Rightarrow> error + MapObject option" where
  "parseMapFromNode ext nd =
     (case load ext (source nd) of
        Inl e \<Rightarrow> Inl e
      | Inr entry \<Rightarrow>
          (if \<not> isNonEmptyObject entry \<or> \<not> isArray (getprop entry ''views'') then Inr None
           else Inr (at0 (filter isNotNull
                            (map mapFromView (Object_values (getprop entry ''views'')))))))"

text \<open>
  The local values of \<open>buildMapData\<close>: the marker list, whose construction can throw,
  and the effective zoom bounds.
\<close>

text \<open>
  \<open>spread v\<close> is the list that \<open>[...(v ?? [])]\<close> builds from a value read from the
  registry: an inherited value is not \<open>undefined\<close>, so it is kept, and it cannot be
  spread.
\<close>

definition spread :: "slot \<Rightarrow> error + MarkerEntry list" where
  "spread v =
     (case v of Undefined \<Rightarrow> Inr [] | Bucket ms \<Rightarrow> Inr ms | Inherited \<Rightarrow> Inl TypeError)"

definition map_markers :: "markerMap \<Rightarrow> MapObject \<Rightarrow> error + MarkerEntry list" where
  "map_markers reg mapData =
     (case spread (markerMap_get reg ''notDefinedMap'') of
        Inl e \<Rightarrow> Inl e
      | Inr undefinedMarkers \<Rightarrow>
          (case (case name mapData of
                   None \<Rightarrow> Inr []
                 | Some n \<Rightarrow> (if n = [] then Inr [] else spread (markerMap_get reg n))) of
             Inl e \<Rightarrow> Inl e
           | Inr definedMarkers \<Rightarrow> Inr (undefinedMarkers @ definedMarkers)))"

definition map_minZoom :: "MapObject \<Rightarrow> rat" where
  "map_minZoom mapData = (case minZoom mapData of Some z \<Rightarrow> z | None \<Rightarrow> default_minZoom)"

definition map_maxZoom :: "MapObject \<Rightarrow> rat" where
  "map_maxZoom mapData =
     max (case maxZoom mapData of Some z \<Rightarrow> z | None \<Rightarrow> default_maxZoom) (map_minZoom mapData)"

definition buildMapData :: "externals \<Rightarrow> markerMap \<Rightarrow> vfile \<Rightarrow> node \<Rightarrow> error + node option" where
  "buildMapData ext reg file nd =
     (case parseMapFromNode ext nd of
        Inl e \<Rightarrow> Inl e
      | Inr None \<Rightarrow> Inr None
      | Inr (Some mapData) \<Rightarrow>
          (case slug file of
             None \<Rightarrow> Inl (Error (path file @ '' has no slug''))
           | Some currentSlug \<Rightarrow>
               (if currentSlug = [] then Inl (Error (path file @ '' has no slug''))
                else
                  let mapSource = transformLink ext currentSlug (image_src mapData)
                  in case map_markers reg mapData of
                    Inl e \<Rightarrow> Inl e
                  | Inr markers \<Rightarrow>
                  let minZoom = map_minZoom mapData;
                      maxZoom = map_maxZoom mapData
                  in Inr (Some
                       (Node ''element'' (Some ''div'') None
                          (Some [Node ''element'' (Some ''div'') None
                                   (Some (map (\<lambda>m. buildMarkerElement ext m currentSlug minZoom)
                                            markers))
                                   (Some [(''class'', AList [''leaflet-map'']),
                                          (''data-src'', AStr mapSource),
                                          (''data-height'',
                                             ANum (case height mapData of Some h \<Rightarrow> h
                                                   | None \<Rightarrow> default_height)),
                                          (''data-min-zoom'', ANum minZoom),
                                          (''data-max-zoom'', ANum maxZoom),
                                          (''data-default-zoom'',
                                             ANum (clamp (case defaultZoom mapData of Some z \<Rightarrow> z
                                                          | None \<Rightarrow> minZoom) minZoom maxZoom)),
                                          (''data-zoom-delta'',
                                             ANum (case zoomDelta mapData of Some z \<Rightarrow> z
                                                   | None \<Rightarrow> default_zoomDelta)),
                                          (''data-scale'',
                                             ANum (case scale mapData of Some s \<Rightarrow> s
                                                   | None \<Rightarrow> default_scale)),
                                          (''data-unit'',
                                             AStr (case unit mapData of Some u \<Rightarrow> u
                                                   | None \<Rightarrow> default_unit))])])
                          (Some []))))))"

text \<open>\<open>attribute nd k\<close> is \<open>nd.properties?.[k]\<close>.\<close>

definition attribute :: "node \<Rightarrow> string \<Rightarrow> attr option" where
  "attribute nd k = (case properties nd of None \<Rightarrow> None | Some ps \<Rightarrow> map_of ps k)"

definition dataLanguage :: "node \<Rightarrow> attr option" where
  "dataLanguage nd = attribute nd ''dataLanguage''"

text \<open>
  The visitor of \<open>transformMapElement\<close>, called on a \<open>code\<close> node that has a parent:
  \<open>None\<close> when it leaves the tree as it is, the replacement of the node otherwise.
\<close>

definition visitor :: "externals \<Rightarrow> markerMap \<Rightarrow> vfile \<Rightarrow> node \<Rightarrow> error + node option" where
  "visitor ext reg file nd =
     (if dataLanguage nd \<noteq> Some (AStr ''base'') then Inr None
      else buildMapData ext reg file nd)"

text \<open>
  \<open>visit\<close> walks the tree in document order and calls the visitor on every node whose
  tag name is \<open>code\<close>. After the call it descends into the children of the node it
  visited, also when the visitor has put another node in its place: then the result of
  the descent is no longer part of the tree, but an exception raised there still ends
  the walk.
\<close>

fun visit_node :: "externals \<Rightarrow> markerMap \<Rightarrow> vfile \<Rightarrow> node \<Rightarrow> error + node"
  and visit_children :: "externals \<Rightarrow> markerMap \<Rightarrow> vfile \<Rightarrow> node list \<Rightarrow> error + node list"
where
  "visit_node ext reg file (Node ty tg val None props) = Inr (Node ty tg val None props)"
| "visit_node ext reg file (Node ty tg val (Some cs) props) =
     (case visit_children ext reg file cs of
        Inl e \<Rightarrow> Inl e
      | Inr cs' \<Rightarrow> Inr (Node ty tg val (Some cs') props))"
| "visit_children ext reg file [] = Inr []"
| "visit_children ext reg file (c # cs) =
     (case (if tagName c = Some ''code'' then visitor ext reg file c else Inr None) of
        Inl e \<Rightarrow> Inl e
      | Inr replacement \<Rightarrow>
          (case visit_node ext reg file c of
             Inl e \<Rightarrow> Inl e
           | Inr c' \<Rightarrow>
               (case visit_children ext reg file cs of
                  Inl e \<Rightarrow> Inl e
                | Inr cs' \<Rightarrow>
                    Inr ((case replacement of Some el \<Rightarrow> el | None \<Rightarrow> c') # cs'))))"

definition transformMapElement :: "externals \<Rightarrow> markerMap \<Rightarrow> node \<Rightarrow> vfile \<Rightarrow> error + node" where
  "transformMapElement ext reg tree file = visit_node ext reg file tree"

section \<open>The client script\<close>

text \<open>
  The browser reads the attributes of an element back through its \<open>dataset\<close>: the
  attribute \<open>data-min-zoom\<close> is the entry \<open>minZoom\<close>. Every entry of a dataset is a
  text. The model keeps a number as it was written by the transform, where the page
  holds its decimal text; that text is never empty, and \<open>parseFloat\<close> reads the
  number back from it.
\<close>

definition to_upper :: "char \<Rightarrow> char" where
  "to_upper c =
     (case map_of (zip ''abcdefghijklmnopqrstuvwxyz'' ''ABCDEFGHIJKLMNOPQRSTUVWXYZ'') c of
        Some u \<Rightarrow> u
      | None \<Rightarrow> c)"

fun camelCase :: "string \<Rightarrow> string" where
  "camelCase [] = []"
| "camelCase [c] = [c]"
| "camelCase (c # d # cs) =
     (if c = CHR ''-'' \<and> d \<in> set ''abcdefghijklmnopqrstuvwxyz''
      then to_upper d # camelCase cs
      else c # camelCase (d # cs))"

type_synonym dataset = "(string \<times> attr) list"

definition dataset_of :: "node \<Rightarrow> dataset" where
  "dataset_of el =
     map (\<lambda>(k, v). (camelCase (drop 5 k), v))
       (filter (\<lambda>(k, v). take 5 k = ''data-'')
          (case properties el of None \<Rightarrow> [] | Some ps \<Rightarrow> ps))"

text \<open>\<open>ds_truthy ds k\<close> is the truth value of \<open>ds[k]\<close>: the entry exists and its text is not empty.\<close>

fun attr_nonempty :: "attr \<Rightarrow> bool" where
  "attr_nonempty (AStr s) = (s \<noteq> [])"
| "attr_nonempty (ANum r) = True"
| "attr_nonempty (AList xs) = (concat xs \<noteq> [] \<or> length xs > 1)"

definition ds_truthy :: "dataset \<Rightarrow> string \<Rightarrow> bool" where
  "ds_truthy ds k = (case map_of ds k of None \<Rightarrow> False | Some v \<Rightarrow> attr_nonempty v)"

text \<open>
  The client has its own \<open>isNonEmptyObject\<close>, which also asks every value to be a
  text; the entries of a dataset are.
\<close>

definition client_isNonEmptyObject :: "dataset \<Rightarrow> bool" where
  "client_isNonEmptyObject ds = (length ds > 0)"

definition isMapDataSet :: "dataset \<Rightarrow> bool" where
  "isMapDataSet e =
     (\<not> (\<not> client_isNonEmptyObject e \<or> \<not> ds_truthy e ''src'' \<or> \<not> ds_truthy e ''height''
         \<or> \<not> ds_truthy e ''minZoom'' \<or> \<not> ds_truthy e ''maxZoom''
         \<or> \<not> ds_truthy e ''defaultZoom'' \<or> \<not> ds_truthy e ''zoomDelta''
         \<or> \<not> ds_truthy e ''scale'' \<or> \<not> ds_truthy e ''unit''))"

definition isMarkerDataSet :: "dataset \<Rightarrow> bool" where
  "isMarkerDataSet e =
     (\<not> (\<not> client_isNonEmptyObject e \<or> \<not> ds_truthy e ''name'' \<or> \<not> ds_truthy e ''link''
         \<or> \<not> ds_truthy e ''coordinates'' \<or> \<not> ds_truthy e ''icon''
         \<or> \<not> ds_truthy e ''colour'' \<or> \<not> ds_truthy e ''minZoom''))"

text \<open>\<open>e.querySelectorAll("div.leaflet-marker")\<close>, on the children of the container.\<close>

definition is_marker_div :: "node \<Rightarrow> bool" where
  "is_marker_div el =
     (tagName el = Some ''div'' \<and>
      (case properties el of
         None \<Rightarrow> False
       | Some ps \<Rightarrow> (case map_of ps ''class'' of
                      Some (AList cl) \<Rightarrow> ''leaflet-marker'' \<in> set cl
                    | _ \<Rightarrow> False)))"

definition getMarkerData :: "node \<Rightarrow> dataset list" where
  "getMarkerData e =
     filter isMarkerDataSet
       (map dataset_of
          (filter is_marker_div (case children e of None \<Rightarrow> [] | Some cs \<Rightarrow> cs)))"

text \<open>\<open>String.prototype.split\<close> on a one-character separator.\<close>

fun split :: "char \<Rightarrow> string \<Rightarrow> string list" where
  "split sep [] = [[]]"
| "split sep (c # cs) =
     (if c = sep then [] # split sep cs
      else (case split sep cs of [] \<Rightarrow> [[c]] | w # ws \<Rightarrow> (c # w) # ws))"

text \<open>
  \<open>parseInt\<close> without a radix: white space and a sign are skipped, the prefix \<open>0x\<close>
  selects base sixteen, and the digits that follow are read; \<open>NaN\<close> without a digit.
\<close>

definition is_hex_digit :: "char \<Rightarrow> bool" where
  "is_hex_digit c = (c \<in> set ''0123456789abcdefABCDEF'')"

definition hex_val :: "char \<Rightarrow> nat" where
  "hex_val c =
     (case map_of (zip ''0123456789abcdefABCDEF''
                       [0, 1, 2, 3, 4, 5, 6, 7, 8, 9, 10, 11, 12, 13, 14, 15, 10, 11, 12, 13, 14, 15]) c of
        Some d \<Rightarrow> d
      | None \<Rightarrow> 0)"

definition parseInt :: "string \<Rightarrow> jsnum" where
  "parseInt s =
     (let t = skip_space s;
          neg = (t \<noteq> [] \<and> hd t = CHR ''-'');
          u = (if t \<noteq> [] \<and> (hd t = CHR ''-'' \<or> hd t = CHR ''+'') then tl t else t)
      in if take 2 u = ''0x'' \<or> take 2 u = ''0X'' then
           (let ds = takeWhile is_hex_digit (drop 2 u)
            in if ds = [] then NaN
               else let m = of_nat (foldl (\<lambda>acc c. 16 * acc + hex_val c) 0 ds)
                    in to_double (if neg then - m else m))
         else
           (let ds = takeWhile is_digit u
            in if ds = [] then NaN
               else let m = of_nat (digits_val ds)
                    in to_double (if neg then - m else m)))"

text \<open>
  The script is the text of a template literal, in which \<open>\s\<close> is the letter s: the
  pattern that \<open>parseCoordinates\<close> runs is \<open>/s/g\<close>, and \<open>replace\<close> removes every
  letter s and keeps the white space.
\<close>

definition parseCoordinates :: "string \<Rightarrow> error + jsnum list" where
  "parseCoordinates e =
     (let n = map parseInt (split (CHR '','') (filter (\<lambda>c. c \<noteq> CHR ''s'') e))
      in if length n \<noteq> 2 then Inl (Error ''Coordinates not properly validated'')
         else Inr n)"

text \<open>
  \<open>addMarker\<close> builds the marker of one descriptor; of its result the model keeps the
  position and the zoom from which the marker is shown. It throws when
  \<open>parseCoordinates\<close> does. A descriptor that passed \<open>isMarkerDataSet\<close> has an entry
  \<open>coordinates\<close>; were it the text of a number, it would hold no comma and
  \<open>parseCoordinates\<close> would throw.
\<close>

record marker_layer =
  latlng :: "jsnum list"
  shown_from :: attr

definition addMarker :: "dataset \<Rightarrow> error + marker_layer" where
  "addMarker e =
     (case map_of e ''coordinates'' of
        Some (AStr s) \<Rightarrow>
          (case parseCoordinates s of
             Inl err \<Rightarrow> Inl err
           | Inr p \<Rightarrow> Inr \<lparr>latlng = p,
                          shown_from = (case map_of e ''minZoom'' of Some z \<Rightarrow> z | None \<Rightarrow> AStr [])\<rparr>)
      | _ \<Rightarrow> Inl (Error ''Coordinates not properly validated''))"

fun addMarkers :: "dataset list \<Rightarrow> error + marker_layer list" where
  "addMarkers [] = Inr []"
| "addMarkers (e # es) =
     (case addMarker e of
        Inl err \<Rightarrow> Inl err
      | Inr m \<Rightarrow> (case addMarkers es of Inl err \<Rightarrow> Inl err | Inr ms \<Rightarrow> Inr (m # ms)))"

text \<open>
  \<open>initialiseMap\<close> takes the outcome of the image fetch as an argument: \<open>None\<close> when
  the image fails to load, its natural width and height otherwise. The result is
  \<open>Inr None\<close> when the function returns before the fetch, without a map, \<open>Inl\<close>
  when the promise is rejected, and the map otherwise.
\<close>

record leaflet_map =
  bounds :: "(nat \<times> nat) \<times> (nat \<times> nat)"
  lm_minZoom :: attr
  lm_maxZoom :: attr
  lm_zoomDelta :: attr
  zoom :: attr
  layers :: "marker_layer list"

definition ds_get :: "dataset \<Rightarrow> string \<Rightarrow> attr" where
  "ds_get ds k = (case map_of ds k of Some v \<Rightarrow> v | None \<Rightarrow> AStr [])"

definition initialiseMap :: "node \<Rightarrow> dataset list \<Rightarrow> (nat \<times> nat) option \<Rightarrow> error + leaflet_map option" where
  "initialiseMap e n fetched =
     (let t = dataset_of e
      in if \<not> isMapDataSet t then Inr None
         else
           (case fetched of
              None \<Rightarrow> Inl ImageError
            | Some (naturalWidth, naturalHeight) \<Rightarrow>
                (case addMarkers n of
                   Inl err \<Rightarrow> Inl err
                 | Inr ms \<Rightarrow>
                     Inr (Some \<lparr>bounds = ((0, 0), (naturalHeight, naturalWidth)),
                                lm_minZoom = ds_get t ''minZoom'',
                                lm_maxZoom = ds_get t ''maxZoom'',
                                lm_zoomDelta = ds_get t ''zoomDelta'',
                                zoom = ds_get t ''defaultZoom'',
                                layers = ms\<rparr>))))"

section \<open>The measure tool\<close>

text \<open>
  The numbers of the client script are the numbers of the JavaScript runtime. The
  measure tool is written here over a type \<open>'n\<close> of numbers that has the runtime's zero,
  addition, subtraction and multiplication, of which no law is assumed, and over the
  two library functions that the tool calls: \<open>Math_sqrt rt x\<close> is \<open>Math.sqrt(x)\<close> and
  \<open>toFixed rt x d\<close> is \<open>x.toFixed(d)\<close>. So the definitions say which operations the code
  applies to which values, and every rounding is the runtime's.
\<close>

record 'n runtime =
  Math_sqrt :: "'n \<Rightarrow> 'n"
  toFixed :: "'n \<Rightarrow> nat \<Rightarrow> string"

text \<open>
  The state of a \<open>MeasureControl\<close>: the fields the click handlers read and write, and of
  the drawing the committed path, the vertex markers and the marker of the last vertex
  with its click listener and tooltip. The preview line and preview tooltip, which
  follow the pointer, and the cursor are left out. \<open>options_scale\<close> is
  \<open>parseFloat(this.options.scale)\<close>.
\<close>

datatype MeasureState = Ready | Measuring | Finishing | Done

record 'n LatLng =
  lat :: 'n
  lng :: 'n

record tooltip =
  permanent :: bool
  content :: string

record 'n circleMarker =
  cm_latlng :: "'n LatLng"
  cm_click :: bool
  cm_tooltip :: "tooltip option"

record 'n MeasureControl =
  state :: MeasureState
  pathItems :: "'n LatLng list"
  mc_distance :: 'n
  options_scale :: 'n
  options_unit :: string
  lineLayer :: bool
  pointLayer :: "'n LatLng list option"
  pathLine :: "'n LatLng list"
  lastElement :: "'n circleMarker option"

definition distance :: "('n::{plus,minus,times}) runtime \<Rightarrow> 'n LatLng \<Rightarrow> 'n LatLng \<Rightarrow> 'n" where
  "distance rt e n =
     (let t = (\<lambda>x. x * x) in Math_sqrt rt (t (lat e - lat n) + t (lng e - lng n)))"

definition getContent :: "'n runtime \<Rightarrow> 'n MeasureControl \<Rightarrow> 'n \<Rightarrow> string" where
  "getContent rt s t = toFixed rt t 1 @ '' '' @ options_unit s"

definition getTooltip :: "'n runtime \<Rightarrow> 'n MeasureControl \<Rightarrow> bool \<Rightarrow> tooltip" where
  "getTooltip rt s t = \<lparr>permanent = t, content = getContent rt s (mc_distance s)\<rparr>"

text \<open>\<open>at_last xs\<close> is \<open>xs.at(-1)\<close> and \<open>at_last2 xs\<close> is \<open>xs.at(-2)\<close>.\<close>

definition at_last :: "'a list \<Rightarrow> 'a option" where
  "at_last xs = (if xs = [] then None else Some (last xs))"

definition at_last2 :: "'a list \<Rightarrow> 'a option" where
  "at_last2 xs = (if length xs < 2 then None else Some (xs ! (length xs - 2)))"

definition new_MeasureControl :: "('n::{zero,one}) MeasureControl" where
  "new_MeasureControl =
     \<lparr>state = Ready, pathItems = [], mc_distance = 0, options_scale = 1, options_unit = [],
      lineLayer = False, pointLayer = None, pathLine = [], lastElement = None\<rparr>"

definition onAdded :: "'n MeasureControl \<Rightarrow> 'n MeasureControl" where
  "onAdded s = s\<lparr>lineLayer := True, pointLayer := Some [], pathLine := []\<rparr>"

definition cleanLastElement :: "'n MeasureControl \<Rightarrow> 'n MeasureControl" where
  "cleanLastElement s =
     s\<lparr>lastElement := map_option (\<lambda>e. e\<lparr>cm_click := False\<rparr>) (lastElement s)\<rparr>"

definition renderPath ::
  "('n::{plus,minus,times}) runtime \<Rightarrow> 'n MeasureControl \<Rightarrow> error + 'n MeasureControl" where
  "renderPath rt s0 =
     (let s = (cleanLastElement s0)\<lparr>pathLine := pathItems s0\<rparr>
      in case at_last (pathItems s) of
           None \<Rightarrow> Inr s
         | Some t \<Rightarrow>
             (case pointLayer s of
                None \<Rightarrow> Inl (Error ''Point layer not initialised'')
              | Some pts \<Rightarrow>
                  (let s' = s\<lparr>pointLayer := Some (pts @ [t]),
                              lastElement :=
                                Some \<lparr>cm_latlng = t, cm_click = True, cm_tooltip = None\<rparr>\<rparr>
                   in case at_last2 (pathItems s') of
                        None \<Rightarrow> Inr s'
                      | Some prev \<Rightarrow>
                          Inr (s'\<lparr>mc_distance :=
                                    mc_distance s' + distance rt t prev * options_scale s'\<rparr>))))"

definition resetPath :: "('n::zero) MeasureControl \<Rightarrow> 'n MeasureControl" where
  "resetPath s =
     (cleanLastElement (s\<lparr>pathItems := [], mc_distance := 0\<rparr>))
       \<lparr>pointLayer := map_option (\<lambda>pts. []) (pointLayer s), pathLine := []\<rparr>"

definition mapClicked ::
  "('n::{zero,plus,minus,times}) runtime \<Rightarrow> 'n MeasureControl \<Rightarrow> 'n LatLng
     \<Rightarrow> error + 'n MeasureControl" where
  "mapClicked rt s p =
     (if \<not> lineLayer s then Inl (Error ''Line layer not initialised'')
      else case state s of
             Ready \<Rightarrow> renderPath rt (s\<lparr>state := Measuring, pathItems := pathItems s @ [p]\<rparr>)
           | Measuring \<Rightarrow> renderPath rt (s\<lparr>state := Measuring, pathItems := pathItems s @ [p]\<rparr>)
           | Finishing \<Rightarrow>
               Inr (s\<lparr>state := Done,
                      lastElement :=
                        map_option (\<lambda>e. e\<lparr>cm_tooltip := Some (getTooltip rt s True)\<rparr>)
                          (lastElement s)\<rparr>)
           | Done \<Rightarrow> Inr ((resetPath s)\<lparr>state := Ready\<rparr>))"

text \<open>
  The click listener that \<open>getCircleMarker\<close> puts on the marker of the last vertex. It
  does not look at the state, and it runs only while the marker still has it: nothing
  but \<open>cleanLastElement\<close> takes it off.
\<close>

definition lastElementClicked :: "'n MeasureControl \<Rightarrow> 'n MeasureControl" where
  "lastElementClicked s =
     (case lastElement s of
        None \<Rightarrow> s
      | Some e \<Rightarrow> (if cm_click e then s\<lparr>state := Finishing\<rparr> else s))"

definition onDeselected :: "('n::zero) MeasureControl \<Rightarrow> 'n MeasureControl" where
  "onDeselected s = (resetPath s)\<lparr>state := Ready\<rparr>"

section \<open>Sample collaborators\<close>

text \<open>
  Concrete evaluations need a loader and path functions. \<open>sample_load\<close> knows the YAML
  texts below, written in flow style on one line, and takes any other text for an empty
  document; the first text, an unclosed sequence, is one the loader cannot parse.
\<close>

definition yaml_samples :: "(string \<times> (error + jsvalue)) list" where
  "yaml_samples =
     [(''views: ['', Inl YAMLException),
      (''{views: [{type: leaflet-map}]}'',
         Inr (JObj [(''views'', JArr [JObj [(''type'', JStr ''leaflet-map'')]])])),
      (''{views: [{type: leaflet-map, image: town.png}]}'',
         Inr (JObj [(''views'',
                JArr [JObj [(''type'', JStr ''leaflet-map''), (''image'', JStr ''town.png'')]])])),
      (''{views: [{type: leaflet-map, image: town.png, scale: 1}]}'',
         Inr (JObj [(''views'',
                JArr [JObj [(''type'', JStr ''leaflet-map''), (''image'', JStr ''town.png''),
                            (''scale'', JNum (Fin 1))]])])),
      (''{views: [{type: leaflet-map, scale: 1}, {type: leaflet-map, image: town.png, scale: 1}]}'',
         Inr (JObj [(''views'',
                JArr [JObj [(''type'', JStr ''leaflet-map''), (''scale'', JNum (Fin 1))],
                      JObj [(''type'', JStr ''leaflet-map''), (''image'', JStr ''town.png''),
                            (''scale'', JNum (Fin 1))]])])),
      (''{views: [{type: leaflet-map, image: town.png, scale: 1, minZoom: 0, maxZoom: 2, defaultZoom: 5}]}'',
         Inr (JObj [(''views'',
                JArr [JObj [(''type'', JStr ''leaflet-map''), (''image'', JStr ''town.png''),
                            (''scale'', JNum (Fin 1)), (''minZoom'', JNum (Fin 0)),
                            (''maxZoom'', JNum (Fin 2)), (''defaultZoom'', JNum (Fin 5))]])])),
      (''{views: [{type: leaflet-map, image: town.png, scale: 1, maxZoom: 1, minZoom: 3}]}'',
         Inr (JObj [(''views'',
                JArr [JObj [(''type'', JStr ''leaflet-map''), (''image'', JStr ''town.png''),
                            (''scale'', JNum (Fin 1)), (''maxZoom'', JNum (Fin 1)),
                            (''minZoom'', JNum (Fin 3))]])])),
      (''{views: [{type: leaflet-map, image: town.png, scale: 1, mapName: Town}]}'',
         Inr (JObj [(''views'',
                JArr [JObj [(''type'', JStr ''leaflet-map''), (''image'', JStr ''town.png''),
                            (''scale'', JNum (Fin 1)), (''mapName'', JStr ''Town'')]])])),
      (''{views: [{type: leaflet-map, image: town.png, scale: 1, mapName: Harbour}]}'',
         Inr (JObj [(''views'',
                JArr [JObj [(''type'', JStr ''leaflet-map''), (''image'', JStr ''town.png''),
                            (''scale'', JNum (Fin 1)), (''mapName'', JStr ''Harbour'')]])])),
      (''{views: [{type: leaflet-map, image: town.png, scale: 1, mapName: toString}]}'',
         Inr (JObj [(''views'',
                JArr [JObj [(''type'', JStr ''leaflet-map''), (''image'', JStr ''town.png''),
                            (''scale'', JNum (Fin 1)), (''mapName'', JStr ''toString'')]])]))]"

definition sample_load :: "string \<Rightarrow> error + jsvalue" where
  "sample_load s = (case map_of yaml_samples s of Some r \<Rightarrow> r | None \<Rightarrow> Inr JUndefined)"

definition sample_externals :: externals where
  "sample_externals =
     \<lparr>load = sample_load,
      transformLink = (\<lambda>sl v. case v of JStr s \<Rightarrow> ''./'' @ s | _ \<Rightarrow> ''./''),
      resolveRelative = (\<lambda>sl target. ''../'' @ target)\<rparr>"

text \<open>A fenced block of the language \<open>base\<close> with the given body, and a page holding it.\<close>

definition base_block :: "string \<Rightarrow> node" where
  "base_block body =
     Node ''element'' (Some ''code'') None
       (Some [Node ''text'' None (Some body) None None])
       (Some [(''dataLanguage'', AStr ''base'')])"

definition page_of :: "node \<Rightarrow> node" where
  "page_of block =
     Node ''root'' None None
       (Some [Node ''element'' (Some ''pre'') None (Some [block]) (Some [])])
       None"

definition sample_file :: vfile where
  "sample_file = \<lparr>path = ''content/town.md'', slug = Some ''town'', frontmatter = None\<rparr>"

section \<open>Statements of the specification\<close>

text \<open>
  The definitions of this section are not code of the plugin: they write down what the
  specification says, to be compared with the code, and name the inputs of concrete
  evaluations.
\<close>

text \<open>A field is present in a value when reading it gives something other than \<open>undefined\<close>.\<close>

definition field_present :: "jsvalue \<Rightarrow> string \<Rightarrow> bool" where
  "field_present v k = (getprop v k \<noteq> JUndefined)"

text \<open>A non-empty record: an object, or an array, with at least one property of its own.\<close>

fun is_nonempty_record :: "jsvalue \<Rightarrow> bool" where
  "is_nonempty_record (JObj kvs) = (kvs \<noteq> [])"
| "is_nonempty_record (JArr xs) = (xs \<noteq> [])"
| "is_nonempty_record v = False"

text \<open>
  Acceptance with two cases per field: (a) present and satisfying its predicate, or
  (b) absent and not required.
\<close>

definition claim_schema_accepts :: "schema \<Rightarrow> jsvalue \<Rightarrow> bool" where
  "claim_schema_accepts sch v =
     (is_nonempty_record v \<and>
      (\<forall>(k, f) \<in> set sch.
         (field_present v k \<and> validator f (getprop v k))
         \<or> (\<not> field_present v k \<and> \<not> required f)))"

text \<open>
  Acceptance with the three cases of the contract of the Schema Validator: (a) required
  and satisfying its predicate, or (b) absent and not required, or (c) present and
  satisfying its predicate.
\<close>

definition spec_schema_accepts :: "schema \<Rightarrow> jsvalue \<Rightarrow> bool" where
  "spec_schema_accepts sch v =
     (is_nonempty_record v \<and>
      (\<forall>(k, f) \<in> set sch.
         (required f \<and> validator f (getprop v k))
         \<or> (\<not> field_present v k \<and> \<not> required f)
         \<or> (field_present v k \<and> validator f (getprop v k))))"

text \<open>
  A predicate for a schema of one's own, of the type \<open>string | undefined\<close>; none of the
  predicates of \<open>Validator\<close> accepts \<open>undefined\<close>.
\<close>

definition optionalStringValidator :: "jsvalue \<Rightarrow> bool" where
  "optionalStringValidator v = (v = JUndefined \<or> stringValidator v)"

text \<open>The value that \<open>clamp\<close> is meant to compute: \<open>v\<close> moved into the interval from \<open>lo\<close> to \<open>hi\<close>.\<close>

definition spec_clamp :: "rat \<Rightarrow> rat \<Rightarrow> rat \<Rightarrow> rat" where
  "spec_clamp v lo hi = (if v < lo then lo else if hi < v then hi else v)"

text \<open>
  The extraction phase runs \<open>buildMarkerData\<close> on every file, starting from the initial
  registry; an exception ends it.
\<close>

fun extract_from :: "markerMap \<Rightarrow> vfile list \<Rightarrow> error + markerMap" where
  "extract_from reg [] = Inr reg"
| "extract_from reg (f # fs) =
     (case buildMarkerData reg f of Inl e \<Rightarrow> Inl e | Inr reg' \<Rightarrow> extract_from reg' fs)"

definition extract_all :: "vfile list \<Rightarrow> error + markerMap" where
  "extract_all files = extract_from initial_markerMap files"

text \<open>The markers that the registry holds under a key of its own.\<close>

definition stored :: "markerMap \<Rightarrow> string \<Rightarrow> MarkerEntry list" where
  "stored reg k = (case reg k of Some ms \<Rightarrow> ms | None \<Rightarrow> [])"


text \<open>The fenced blocks of the language \<open>base\<close> below a node, in document order.\<close>

definition is_base_block :: "node \<Rightarrow> bool" where
  "is_base_block nd = (tagName nd = Some ''code'' \<and> dataLanguage nd = Some (AStr ''base''))"

fun base_blocks :: "node \<Rightarrow> node list"
  and base_blocks_list :: "node list \<Rightarrow> node list"
where
  "base_blocks (Node ty tg val None props) = []"
| "base_blocks (Node ty tg val (Some cs) props) = base_blocks_list cs"
| "base_blocks_list [] = []"
| "base_blocks_list (c # cs) =
     (if is_base_block c then [c] else []) @ base_blocks c @ base_blocks_list cs"

text \<open>Sample documents that declare markers, and sample map declarations.\<close>

definition file_with_markers :: "string \<Rightarrow> string \<Rightarrow> jsvalue list \<Rightarrow> vfile" where
  "file_with_markers sl ttl entries =
     \<lparr>path = ''content/'' @ sl @ ''.md'', slug = Some sl,
      frontmatter = Some \<lparr>title = ttl, marker = JArr entries\<rparr>\<rparr>"

definition marker_of :: "string \<Rightarrow> string option \<Rightarrow> string \<Rightarrow> string \<Rightarrow> MarkerEntry" where
  "marker_of coords mn ttl sl =
     \<lparr>mapName = mn, coordinates = coords, icon = None, colour = None, marker_minZoom = None,
      marker_name = ttl, link = sl\<rparr>"

definition map_named :: "string option \<Rightarrow> MapObject" where
  "map_named n =
     \<lparr>name = n, image_src = JStr ''town.png'', height = None, minZoom = None, maxZoom = None,
      defaultZoom = None, zoomDelta = None, scale = Some 1, unit = None\<rparr>"

text \<open>
  The key of the bucket that \<open>buildMarkerData\<close> stores a marker under, and the
  invariant of the registry: the implicit bucket exists, every marker lies in the
  bucket of its key, and no inherited property name is a key of the registry's own.
\<close>

definition bucket_key :: "MarkerEntry \<Rightarrow> string" where
  "bucket_key m =
     (case mapName m of None \<Rightarrow> ''notDefinedMap''
      | Some k \<Rightarrow> if k = [] then ''notDefinedMap'' else k)"

definition registry_ok :: "markerMap \<Rightarrow> bool" where
  "registry_ok reg =
     (reg ''notDefinedMap'' \<noteq> None \<and>
      (\<forall>k ms. reg k = Some ms \<longrightarrow> (\<forall>m \<in> set ms. bucket_key m = k)) \<and>
      (\<forall>k \<in> set inherited_keys. reg k = None))"

text \<open>
  \<open>needs_comma r\<close> is a syntactic check that every text matched by \<open>r\<close> holds a
  comma; it is used to reason about the coordinates pattern.
\<close>

fun needs_comma :: "rx \<Rightarrow> bool" where
  "needs_comma Nothing = True"
| "needs_comma Empty = False"
| "needs_comma (OneOf cs) = (\<forall>c \<in> set cs. c = CHR '','')"
| "needs_comma (Alt r s) = (needs_comma r \<and> needs_comma s)"
| "needs_comma (Seq r s) = (needs_comma r \<or> needs_comma s)"
| "needs_comma (Star r) = False"




text \<open>
  Sample states of the measure tool: a control added to a map with the scale 1 and the
  unit ft, whose drawing shows the given path.
\<close>

definition measure_state ::
  "MeasureState \<Rightarrow> int LatLng list \<Rightarrow> int \<Rightarrow> int circleMarker option \<Rightarrow> int MeasureControl" where
  "measure_state st pth d le =
     \<lparr>state = st, pathItems = pth, mc_distance = d, options_scale = 1, options_unit = ''ft'',
      lineLayer = True, pointLayer = Some pth, pathLine = pth, lastElement = le\<rparr>"


section \<open>Verified properties\<close>

subsection \<open>The schema validator\<close>

lemma isNonEmptyObject_record: "isNonEmptyObject v = is_nonempty_record v"
  by (cases v) (simp_all add: isNonEmptyObject_def)

lemma schemaValidatorFactory_all:
  "schemaValidatorFactory sch v =
     (isNonEmptyObject v \<and>
      (\<forall>(k, f) \<in> set sch.
         (getprop v k = JUndefined \<and> \<not> required f) \<or> validator f (getprop v k)))"
  by (auto simp: schemaValidatorFactory_def list_all_iff)

lemma getprop_append_other:
  "k' \<noteq> k \<Longrightarrow> getprop (JObj (kvs @ [(k, x)])) k' = getprop (JObj kvs) k'"
  by (simp add: map_add_def split: option.splits)

lemmas validator_defs = stringValidator_def sourcevalidator_def

text \<open>
  Claim C9, as amended. The validator generated from a schema accepts a value exactly
  when the value is a non-empty record and every field of the schema is (a) required and
  satisfies its predicate, or (b) absent and not required, or (c) present and satisfies
  its predicate; the predicate of an absent field is applied to \<open>undefined\<close>. For a
  schema whose predicates all reject \<open>undefined\<close> this is: every field is present and
  satisfies its predicate, or is absent and not required. A field that the schema does
  not list never causes rejection.
\<close>

theorem C9_schema_validator:
  "schemaValidatorFactory sch v = spec_schema_accepts sch v
   \<and> ((\<forall>(k, f) \<in> set sch. \<not> validator f JUndefined)
        \<longrightarrow> schemaValidatorFactory sch v = claim_schema_accepts sch v)
   \<and> (k \<notin> fst ` set sch \<and> schemaValidatorFactory sch (JObj kvs)
        \<longrightarrow> schemaValidatorFactory sch (JObj (kvs @ [(k, x)])))"
proof (intro conjI impI)
  show "schemaValidatorFactory sch v = spec_schema_accepts sch v"
    unfolding schemaValidatorFactory_all spec_schema_accepts_def field_present_def
      isNonEmptyObject_record
    by auto
next
  assume rej: "\<forall>(k, f) \<in> set sch. \<not> validator f JUndefined"
  show "schemaValidatorFactory sch v = claim_schema_accepts sch v"
    unfolding schemaValidatorFactory_all claim_schema_accepts_def field_present_def
      isNonEmptyObject_record
    using rej by fastforce
next
  assume a: "k \<notin> fst ` set sch \<and> schemaValidatorFactory sch (JObj kvs)"
  have other: "getprop (JObj (kvs @ [(k, x)])) k' = getprop (JObj kvs) k'"
    if "(k', f) \<in> set sch" for k' f
  proof -
    from that a have "k' \<noteq> k" by force
    then show ?thesis by (rule getprop_append_other)
  qed
  from a have "\<forall>(k', f) \<in> set sch.
      (getprop (JObj kvs) k' = JUndefined \<and> \<not> required f) \<or> validator f (getprop (JObj kvs) k')"
    by (simp add: schemaValidatorFactory_all)
  then have "\<forall>(k', f) \<in> set sch.
      (getprop (JObj (kvs @ [(k, x)])) k' = JUndefined \<and> \<not> required f)
      \<or> validator f (getprop (JObj (kvs @ [(k, x)])) k')"
    using other by fastforce
  then show "schemaValidatorFactory sch (JObj (kvs @ [(k, x)]))"
    by (simp add: schemaValidatorFactory_all isNonEmptyObject_def)
qed

text \<open>
  The theorem at \<open>mapSchema\<close>, whose predicates reject \<open>undefined\<close>: a declaration
  with an image and a scale is accepted, also with a field \<open>author\<close> that the schema
  does not list.
\<close>

theorem C9_schema_validator_witness:
  "schemaValidatorFactory mapSchema
      (JObj [(''image'', JStr ''town.png''), (''scale'', JNum (Fin 2)), (''author'', JNull)])
   \<and> claim_schema_accepts mapSchema
        (JObj [(''image'', JStr ''town.png''), (''scale'', JNum (Fin 2))])
   \<and> spec_schema_accepts mapSchema
        (JObj [(''image'', JStr ''town.png''), (''scale'', JNum (Fin 2))])"
proof -
  have rej: "\<forall>(k, f) \<in> set mapSchema. \<not> validator f JUndefined"
    by (simp add: mapSchema_def validator_defs)
  have unlisted: "''author'' \<notin> fst ` set mapSchema"
    by (simp add: mapSchema_def)
  have acc: "schemaValidatorFactory mapSchema
      (JObj [(''image'', JStr ''town.png''), (''scale'', JNum (Fin 2))])"
    by (simp add: schemaValidatorFactory_def isNonEmptyObject_def mapSchema_def validator_defs)
  from C9_schema_validator [of mapSchema
      "JObj [(''image'', JStr ''town.png''), (''scale'', JNum (Fin 2))]"
      "''author''" "[(''image'', JStr ''town.png''), (''scale'', JNum (Fin 2))]" JNull]
    rej unlisted acc
  show ?thesis by simp
qed

text \<open>
  Claim C9 as stated fails: a schema with one required field \<open>nickname\<close>, whose
  predicate accepts \<open>undefined\<close>, accepts a record without that field, which is neither
  present and valid nor absent and optional.
\<close>

theorem C9_counterexample:
  "schemaValidatorFactory
      [(''nickname'', \<lparr>validator = optionalStringValidator, required = True\<rparr>)]
      (JObj [(''age'', JNum (Fin 30))])
   \<and> \<not> claim_schema_accepts
      [(''nickname'', \<lparr>validator = optionalStringValidator, required = True\<rparr>)]
      (JObj [(''age'', JNum (Fin 30))])"
  by (simp add: schemaValidatorFactory_def isNonEmptyObject_def claim_schema_accepts_def
      field_present_def optionalStringValidator_def)

subsection \<open>The map definition parser\<close>

lemmas map_eval_defs = mapFromView_def view_object_def isProperEntry_def isNonEmptyObject_def
  SchemaValidator_map_def schemaValidatorFactory_def mapSchema_def nullish_or_def parseFloat_def
  validator_defs as_MapObject_def str_field_def num_field_def

lemmas doc_eval_defs = buildMapData_def parseMapFromNode_def sample_externals_def sample_load_def
  yaml_samples_def base_block_def at0_def isNotNull_def sample_file_def

lemma parseFloat_empty: "parseFloat [] = NaN"
  by (simp add: parseFloat_def)

text \<open>
  \<open>parseFloat\<close> at a literal beyond the largest double, and behind a no-break space.
\<close>

lemma parseFloat_overflow: "parseFloat ''1e1000'' = PosInf"
  by (simp add: parseFloat_def to_double_def pow10_def parse_exponent_def digits_val_def
      digit_val_def is_digit_def space_prefix_def white_space_def)

lemma parseFloat_nbsp: "parseFloat ([CHR 0xC2, CHR 0xA0] @ ''1.5'') = Fin (3 / 2)"
  by (simp add: parseFloat_def to_double_def pow10_def parse_exponent_def digits_val_def
      digit_val_def is_digit_def space_prefix_def white_space_def)

lemma map_rejects_nan_scale:
  "getprop object ''scale'' = JNum NaN \<Longrightarrow> \<not> SchemaValidator_map object"
  by (simp add: SchemaValidator_map_def schemaValidatorFactory_all mapSchema_def)

lemma map_rejects_missing_image:
  "getprop object ''image'' = JUndefined \<Longrightarrow> \<not> SchemaValidator_map object"
  by (simp add: SchemaValidator_map_def schemaValidatorFactory_all mapSchema_def validator_defs)

lemma view_object_scale_absent:
  "getprop view ''scale'' = JUndefined \<Longrightarrow> getprop (view_object view) ''scale'' = JNum NaN"
  by (simp add: view_object_def nullish_or_def parseFloat_empty)

lemma mapFromView_scale_absent:
  "getprop view ''scale'' = JUndefined \<Longrightarrow> mapFromView view = None"
  using map_rejects_nan_scale [OF view_object_scale_absent] by (simp add: mapFromView_def)

lemma mapFromView_image_absent:
  "getprop view ''image'' = JUndefined \<Longrightarrow> mapFromView view = None"
  using map_rejects_missing_image [of "view_object view"]
  by (simp add: mapFromView_def view_object_def)

text \<open>Mapping, filtering and taking the first entry finds the first view that passes.\<close>

lemma first_valid:
  "at0 (filter isNotNull (map f xs)) =
     (case dropWhile (\<lambda>v. f v = None) xs of [] \<Rightarrow> None | v # _ \<Rightarrow> f v)"
  by (induction xs) (auto simp: at0_def isNotNull_def)

lemma parseMapFromNode_views:
  assumes "load ext (source nd) = Inr entry" "isNonEmptyObject entry"
    "getprop entry ''views'' = JArr views"
  shows "parseMapFromNode ext nd =
     Inr (case dropWhile (\<lambda>v. mapFromView v = None) views of
            [] \<Rightarrow> None | v # _ \<Rightarrow> mapFromView v)"
  using assms by (simp add: parseMapFromNode_def first_valid)

text \<open>
  Claim C1 asks for a container with \<open>data-scale\<close> 1 when a view omits \<open>scale\<close>. The
  code gives none: the absent scale is parsed to \<open>NaN\<close>, which the schema validator
  rejects, so a block whose views all omit \<open>scale\<close> yields no map and no container.
\<close>

theorem C1_absent_scale_no_map:
  assumes "load ext (source nd) = Inr entry" "isNonEmptyObject entry"
    "getprop entry ''views'' = JArr views"
    "\<forall>view \<in> set views. getprop view ''scale'' = JUndefined"
  shows "parseMapFromNode ext nd = Inr None \<and> buildMapData ext reg file nd = Inr None"
proof -
  from assms(4) have "\<forall>view \<in> set views. mapFromView view = None"
    by (simp add: mapFromView_scale_absent)
  then have "dropWhile (\<lambda>v. mapFromView v = None) views = []" by simp
  with parseMapFromNode_views [OF assms(1-3)] have "parseMapFromNode ext nd = Inr None" by simp
  then show ?thesis by (simp add: buildMapData_def)
qed

text \<open>The theorem at the view \<open>{type: leaflet-map, image: town.png}\<close>.\<close>

theorem C1_absent_scale_no_map_witness:
  "mapFromView (JObj [(''type'', JStr ''leaflet-map''), (''image'', JStr ''town.png'')]) = None \<and>
   buildMapData sample_externals initial_markerMap sample_file
     (base_block ''{views: [{type: leaflet-map, image: town.png}]}'') = Inr None"
proof -
  have "load sample_externals
          (source (base_block ''{views: [{type: leaflet-map, image: town.png}]}''))
      = Inr (JObj [(''views'',
                JArr [JObj [(''type'', JStr ''leaflet-map''), (''image'', JStr ''town.png'')]])])"
    by (simp add: doc_eval_defs)
  from C1_absent_scale_no_map [OF this,
      of "[JObj [(''type'', JStr ''leaflet-map''), (''image'', JStr ''town.png'')]]"
      initial_markerMap sample_file]
  have "buildMapData sample_externals initial_markerMap sample_file
     (base_block ''{views: [{type: leaflet-map, image: town.png}]}'') = Inr None"
    by (simp add: isNonEmptyObject_def)
  moreover have
    "mapFromView (JObj [(''type'', JStr ''leaflet-map''), (''image'', JStr ''town.png'')]) = None"
    by (simp add: mapFromView_scale_absent)
  ultimately show ?thesis by simp
qed

text \<open>
  Claim C2, as amended. For a block whose views are an invalid view without an image
  followed by a valid view, the parser returns the declaration of the valid view: every
  view is examined in list order and the first one that passes validation wins.
\<close>

theorem C2_first_valid_view:
  assumes "load ext (source nd) = Inr entry" "isNonEmptyObject entry"
    "getprop entry ''views'' = JArr [v1, v2]"
    "getprop v1 ''image'' = JUndefined" "mapFromView v2 = Some m"
  shows "mapFromView v1 = None \<and> parseMapFromNode ext nd = Inr (Some m)"
proof -
  have "mapFromView v1 = None" using assms(4) by (rule mapFromView_image_absent)
  with parseMapFromNode_views [OF assms(1-3)] assms(5) show ?thesis by simp
qed

text \<open>
  Claim C2 as stated fails: the first view has no image and is rejected, and the parser
  still finds the map of the second view.
\<close>

theorem C2_counterexample:
  "mapFromView (JObj [(''type'', JStr ''leaflet-map''), (''scale'', JNum (Fin 1))]) = None \<and>
   parseMapFromNode sample_externals
     (base_block
        ''{views: [{type: leaflet-map, scale: 1}, {type: leaflet-map, image: town.png, scale: 1}]}'')
   = Inr (Some \<lparr>name = None, image_src = JStr ''town.png'', height = None, minZoom = None,
                maxZoom = None, defaultZoom = None, zoomDelta = None, scale = Some 1,
                unit = None\<rparr>)"
  by (simp add: doc_eval_defs map_eval_defs)

text \<open>
  The theorem at the block of the counterexample: the second view is the declaration
  that the parser returns.
\<close>

theorem C2_first_valid_view_witness:
  "mapFromView (JObj [(''type'', JStr ''leaflet-map''), (''image'', JStr ''town.png''),
                      (''scale'', JNum (Fin 1))]) = Some (map_named None)
   \<and> parseMapFromNode sample_externals
     (base_block
        ''{views: [{type: leaflet-map, scale: 1}, {type: leaflet-map, image: town.png, scale: 1}]}'')
     = Inr (Some (map_named None))"
proof -
  let ?v1 = "JObj [(''type'', JStr ''leaflet-map''), (''scale'', JNum (Fin 1))]"
  let ?v2 = "JObj [(''type'', JStr ''leaflet-map''), (''image'', JStr ''town.png''),
                   (''scale'', JNum (Fin 1))]"
  have ld: "load sample_externals (source (base_block
        ''{views: [{type: leaflet-map, scale: 1}, {type: leaflet-map, image: town.png, scale: 1}]}''))
      = Inr (JObj [(''views'', JArr [?v1, ?v2])])"
    by (simp add: doc_eval_defs)
  have ne: "isNonEmptyObject (JObj [(''views'', JArr [?v1, ?v2])])"
    by (simp add: isNonEmptyObject_def)
  have vs: "getprop (JObj [(''views'', JArr [?v1, ?v2])]) ''views'' = JArr [?v1, ?v2]"
    by simp
  have noimg: "getprop ?v1 ''image'' = JUndefined" by simp
  have ok: "mapFromView ?v2 = Some (map_named None)"
    by (simp add: map_eval_defs map_named_def)
  from C2_first_valid_view [OF ld ne vs noimg ok] ok show ?thesis by simp
qed

subsection \<open>The document transform\<close>

lemma clamp_spec: "lo \<le> hi \<Longrightarrow> clamp v lo hi = spec_clamp v lo hi"
  by (simp add: clamp_def spec_clamp_def min_def max_def)

lemma min_le_max_zoom: "map_minZoom m \<le> map_maxZoom m"
  by (simp add: map_maxZoom_def)

lemma buildMapData_container:
  assumes "parseMapFromNode ext nd = Inr (Some m)" "slug file = Some s" "s \<noteq> []"
    and "map_markers reg m = Inr mks"
  shows "buildMapData ext reg file nd =
     Inr (Some (Node ''element'' (Some ''div'') None
       (Some [Node ''element'' (Some ''div'') None
                (Some (map (\<lambda>mk. buildMarkerElement ext mk s (map_minZoom m)) mks))
                (Some [(''class'', AList [''leaflet-map'']),
                       (''data-src'', AStr (transformLink ext s (image_src m))),
                       (''data-height'', ANum (case height m of Some h \<Rightarrow> h | None \<Rightarrow> default_height)),
                       (''data-min-zoom'', ANum (map_minZoom m)),
                       (''data-max-zoom'', ANum (map_maxZoom m)),
                       (''data-default-zoom'',
                          ANum (clamp (case defaultZoom m of Some z \<Rightarrow> z | None \<Rightarrow> map_minZoom m)
                                  (map_minZoom m) (map_maxZoom m))),
                       (''data-zoom-delta'',
                          ANum (case zoomDelta m of Some z \<Rightarrow> z | None \<Rightarrow> default_zoomDelta)),
                       (''data-scale'', ANum (case scale m of Some z \<Rightarrow> z | None \<Rightarrow> default_scale)),
                       (''data-unit'', AStr (case unit m of Some u \<Rightarrow> u | None \<Rightarrow> default_unit))])])
       (Some [])))"
  using assms by (simp add: buildMapData_def Let_def)

lemma buildMapData_throws:
  assumes "parseMapFromNode ext nd = Inr (Some m)" "slug file = Some s" "s \<noteq> []"
    and "map_markers reg m = Inl e"
  shows "buildMapData ext reg file nd = Inl e"
  using assms by (simp add: buildMapData_def Let_def)

lemma container_children:
  assumes "parseMapFromNode ext nd = Inr (Some m)" "slug file = Some s" "s \<noteq> []"
    and "map_markers reg m = Inr mks"
  shows "\<exists>c. buildMapData ext reg file nd =
            Inr (Some (Node ''element'' (Some ''div'') None (Some [c]) (Some [])))
     \<and> children c = Some (map (\<lambda>mk. buildMarkerElement ext mk s (map_minZoom m)) mks)"
  unfolding buildMapData_container [OF assms] by simp

text \<open>
  The marker list of a map. When it can be built it is the implicit bucket followed by
  the bucket of the map's name; it can be built whenever that name is not a property
  name that the registry object inherits; and for an inherited name that no marker has
  declared, building it throws, so the transform of the page throws.
\<close>

lemma map_markers_value:
  assumes "map_markers reg m = Inr ms"
  shows "ms = stored reg ''notDefinedMap'' @
     (case name m of None \<Rightarrow> [] | Some n \<Rightarrow> if n = [] then [] else stored reg n)"
  using assms
  by (auto simp: map_markers_def spread_def markerMap_get_def stored_def
      split: option.splits if_splits sum.splits slot.splits)

lemma map_markers_plain:
  assumes "\<And>n. name m = Some n \<Longrightarrow> n \<notin> set inherited_keys"
  shows "\<exists>ms. map_markers reg m = Inr ms"
proof -
  have nd: "''notDefinedMap'' \<notin> set inherited_keys"
    by (simp add: inherited_keys_def)
  have 1: "\<exists>us. spread (markerMap_get reg ''notDefinedMap'') = Inr us"
    using nd by (simp add: spread_def markerMap_get_def split: option.splits)
  have 2: "\<exists>ds. spread (markerMap_get reg n) = Inr ds" if "n \<notin> set inherited_keys" for n
    using that by (simp add: spread_def markerMap_get_def split: option.splits)
  show ?thesis
  proof (cases "name m")
    case None
    with 1 show ?thesis by (auto simp: map_markers_def)
  next
    case (Some n)
    with 1 2 [OF assms [OF Some]] show ?thesis by (auto simp: map_markers_def)
  qed
qed

lemma map_markers_inherited:
  assumes "name m = Some n" "n \<in> set inherited_keys" "reg n = None"
  shows "map_markers reg m = Inl TypeError"
proof -
  have ne: "n \<noteq> []" using assms(2) by (auto simp: inherited_keys_def)
  have nd: "''notDefinedMap'' \<notin> set inherited_keys"
    by (simp add: inherited_keys_def)
  have 1: "\<exists>us. spread (markerMap_get reg ''notDefinedMap'') = Inr us"
    using nd by (simp add: spread_def markerMap_get_def split: option.splits)
  have 2: "spread (markerMap_get reg n) = Inl TypeError"
    using assms by (simp add: spread_def markerMap_get_def)
  from 1 2 ne assms(1) show ?thesis by (auto simp: map_markers_def)
qed

text \<open>
  The zoom values of the container, for a map whose marker list can be built.
\<close>

lemma effective_zoom:
  assumes "parseMapFromNode ext nd = Inr (Some m)" "slug file = Some s" "s \<noteq> []"
    and "map_markers reg m = Inr mks"
  shows "\<exists>c. buildMapData ext reg file nd =
            Inr (Some (Node ''element'' (Some ''div'') None (Some [c]) (Some [])))
     \<and> (let lo = (case minZoom m of Some z \<Rightarrow> z | None \<Rightarrow> 0);
             hi = max (case maxZoom m of Some z \<Rightarrow> z | None \<Rightarrow> 2) lo;
             d = spec_clamp (case defaultZoom m of Some z \<Rightarrow> z | None \<Rightarrow> lo) lo hi
         in attribute c ''data-min-zoom'' = Some (ANum lo)
          \<and> attribute c ''data-max-zoom'' = Some (ANum hi)
          \<and> attribute c ''data-default-zoom'' = Some (ANum d)
          \<and> lo \<le> d \<and> d \<le> hi)"
proof -
  have lo: "map_minZoom m = (case minZoom m of Some z \<Rightarrow> z | None \<Rightarrow> 0)"
    by (simp add: map_minZoom_def default_minZoom_def split: option.splits)
  have hi: "map_maxZoom m = max (case maxZoom m of Some z \<Rightarrow> z | None \<Rightarrow> 2) (map_minZoom m)"
    by (simp add: map_maxZoom_def default_maxZoom_def split: option.splits)
  have d: "clamp v (map_minZoom m) (map_maxZoom m) = spec_clamp v (map_minZoom m) (map_maxZoom m)" for v
    by (rule clamp_spec [OF min_le_max_zoom])
  have bounds: "map_minZoom m \<le> spec_clamp v (map_minZoom m) (map_maxZoom m)
      \<and> spec_clamp v (map_minZoom m) (map_maxZoom m) \<le> map_maxZoom m" for v
    using min_le_max_zoom [of m] by (simp add: spec_clamp_def)
  show ?thesis
    unfolding buildMapData_container [OF assms]
    using bounds by (simp add: attribute_def Let_def d lo [symmetric] hi [symmetric])
qed

text \<open>
  Claim C5. For every declaration that the parser returns, that is, every validated map
  declaration, in a file with a slug, and with a name that is not a property name that
  the registry object inherits (for such a name the transform throws before it computes
  a zoom value), the container carries the effective zoom values: the minimum is the
  declared \<open>minZoom\<close>, or 0 when absent; the maximum is the larger of the declared
  \<open>maxZoom\<close>, or 2 when absent, and the minimum; the default is the declared
  \<open>defaultZoom\<close>, or the minimum when absent, moved into the interval from the minimum
  to the maximum, so it lies between them.
\<close>

theorem C5_effective_zoom:
  assumes "parseMapFromNode ext nd = Inr (Some m)" "slug file = Some s" "s \<noteq> []"
    and "\<forall>n. name m = Some n \<longrightarrow> n \<notin> set inherited_keys"
  shows "\<exists>c. buildMapData ext reg file nd =
            Inr (Some (Node ''element'' (Some ''div'') None (Some [c]) (Some [])))
     \<and> (let lo = (case minZoom m of Some z \<Rightarrow> z | None \<Rightarrow> 0);
             hi = max (case maxZoom m of Some z \<Rightarrow> z | None \<Rightarrow> 2) lo;
             d = spec_clamp (case defaultZoom m of Some z \<Rightarrow> z | None \<Rightarrow> lo) lo hi
         in attribute c ''data-min-zoom'' = Some (ANum lo)
          \<and> attribute c ''data-max-zoom'' = Some (ANum hi)
          \<and> attribute c ''data-default-zoom'' = Some (ANum d)
          \<and> lo \<le> d \<and> d \<le> hi)"
proof -
  from assms(4) obtain mks where "map_markers reg m = Inr mks"
    using map_markers_plain [of m reg] by blast
  from effective_zoom [OF assms(1-3) this] show ?thesis .
qed

lemma parse_zoom_example_1:
  "parseMapFromNode sample_externals (base_block
     ''{views: [{type: leaflet-map, image: town.png, scale: 1, minZoom: 0, maxZoom: 2, defaultZoom: 5}]}'')
   = Inr (Some ((map_named None)\<lparr>minZoom := Some 0, maxZoom := Some 2, defaultZoom := Some 5\<rparr>))"
  by (simp add: doc_eval_defs map_eval_defs map_named_def)

lemma parse_zoom_example_2:
  "parseMapFromNode sample_externals (base_block
     ''{views: [{type: leaflet-map, image: town.png, scale: 1, maxZoom: 1, minZoom: 3}]}'')
   = Inr (Some ((map_named None)\<lparr>minZoom := Some 3, maxZoom := Some 1\<rparr>))"
  by (simp add: doc_eval_defs map_eval_defs map_named_def)

text \<open>
  The theorem at the two declarations of the claim: \<open>{minZoom: 0, maxZoom: 2,
  defaultZoom: 5}\<close> gives 0, 2 and 2, and \<open>{maxZoom: 1, minZoom: 3}\<close> gives the
  maximum 3.
\<close>

theorem C5_effective_zoom_witness:
  "(\<exists>c. buildMapData sample_externals initial_markerMap sample_file (base_block
     ''{views: [{type: leaflet-map, image: town.png, scale: 1, minZoom: 0, maxZoom: 2, defaultZoom: 5}]}'')
      = Inr (Some (Node ''element'' (Some ''div'') None (Some [c]) (Some [])))
     \<and> attribute c ''data-min-zoom'' = Some (ANum 0)
     \<and> attribute c ''data-max-zoom'' = Some (ANum 2)
     \<and> attribute c ''data-default-zoom'' = Some (ANum 2))
   \<and> (\<exists>c. buildMapData sample_externals initial_markerMap sample_file (base_block
     ''{views: [{type: leaflet-map, image: town.png, scale: 1, maxZoom: 1, minZoom: 3}]}'')
      = Inr (Some (Node ''element'' (Some ''div'') None (Some [c]) (Some [])))
     \<and> attribute c ''data-min-zoom'' = Some (ANum 3)
     \<and> attribute c ''data-max-zoom'' = Some (ANum 3)
     \<and> attribute c ''data-default-zoom'' = Some (ANum 3))"
proof -
  have sl: "slug sample_file = Some ''town''" "''town'' \<noteq> []"
    by (simp_all add: sample_file_def)
  have mk1: "\<forall>n. name ((map_named None)\<lparr>minZoom := Some 0, maxZoom := Some 2,
      defaultZoom := Some 5\<rparr>) = Some n \<longrightarrow> n \<notin> set inherited_keys"
    by (simp add: map_named_def)
  have mk2: "\<forall>n. name ((map_named None)\<lparr>minZoom := Some 3, maxZoom := Some 1\<rparr>) = Some n
      \<longrightarrow> n \<notin> set inherited_keys"
    by (simp add: map_named_def)
  from C5_effective_zoom [OF parse_zoom_example_1 sl mk1, of initial_markerMap]
  have 1: "\<exists>c. buildMapData sample_externals initial_markerMap sample_file (base_block
     ''{views: [{type: leaflet-map, image: town.png, scale: 1, minZoom: 0, maxZoom: 2, defaultZoom: 5}]}'')
      = Inr (Some (Node ''element'' (Some ''div'') None (Some [c]) (Some [])))
     \<and> attribute c ''data-min-zoom'' = Some (ANum 0)
     \<and> attribute c ''data-max-zoom'' = Some (ANum 2)
     \<and> attribute c ''data-default-zoom'' = Some (ANum 2)"
    by (simp add: map_named_def spec_clamp_def)
  from C5_effective_zoom [OF parse_zoom_example_2 sl mk2, of initial_markerMap]
  have 2: "\<exists>c. buildMapData sample_externals initial_markerMap sample_file (base_block
     ''{views: [{type: leaflet-map, image: town.png, scale: 1, maxZoom: 1, minZoom: 3}]}'')
      = Inr (Some (Node ''element'' (Some ''div'') None (Some [c]) (Some [])))
     \<and> attribute c ''data-min-zoom'' = Some (ANum 3)
     \<and> attribute c ''data-max-zoom'' = Some (ANum 3)
     \<and> attribute c ''data-default-zoom'' = Some (ANum 3)"
    by (simp add: map_named_def spec_clamp_def)
  from 1 2 show ?thesis by blast
qed

subsection \<open>The registry and the marker list of a map\<close>

lemmas marker_eval_defs = extract_all_def buildMarkerData_def file_with_markers_def
  parseMarkerFromEntry_def isProperEntry_def isNonEmptyObject_def SchemaValidator_marker_def
  schemaValidatorFactory_def markerSchema_def validator_defs str_field_def num_field_def
  isNotNull_def store_marker_def push_to_def initial_markerMap_def markerMap_get_def
  spread_def stored_def inherited_keys_def
  coordinatesValidation_def Plus_def rx_digit_def rx_space_def rx_text_def white_space_def
  marker_of_def map_named_def map_markers_def

lemma town_registry:
  "extract_all
     [file_with_markers ''inn'' ''Inn''
        [JObj [(''coordinates'', JStr ''10, 20''), (''mapName'', JStr ''Town'')]],
      file_with_markers ''well'' ''Well'' [JObj [(''coordinates'', JStr ''5, 5'')]]]
   = Inr [''notDefinedMap'' \<mapsto> [marker_of ''5, 5'' None ''Well'' ''well''],
          ''Town'' \<mapsto> [marker_of ''10, 20'' (Some ''Town'') ''Inn'' ''inn'']]"
  by (simp add: marker_eval_defs fun_upd_twist)

text \<open>
  A marker that declares a name which the registry object inherits ends the build: the
  extraction phase throws.
\<close>

lemma inherited_name_throws:
  "extract_all
     [file_with_markers ''inn'' ''Inn''
        [JObj [(''coordinates'', JStr ''10, 20''), (''mapName'', JStr ''constructor'')]]]
   = Inl TypeError"
  by (simp add: marker_eval_defs)

lemma initial_ok: "registry_ok initial_markerMap"
  by (simp add: registry_ok_def initial_markerMap_def inherited_keys_def)

lemma push_to_ok:
  assumes "registry_ok reg" "bucket_key m = k" "push_to reg k m = Inr reg'"
  shows "registry_ok reg'"
proof (cases "reg k")
  case None
  with assms(3) have "reg' = reg"
    by (simp add: push_to_def markerMap_get_def split: if_splits)
  with assms(1) show ?thesis by simp
next
  case (Some ms)
  with assms(3) have "reg' = reg(k \<mapsto> ms @ [m])"
    by (simp add: push_to_def markerMap_get_def)
  with assms(1,2) Some show ?thesis
    by (auto simp: registry_ok_def)
qed

lemma new_bucket_ok:
  assumes "registry_ok reg"
  shows "registry_ok (if markerMap_get reg k = Undefined then reg(k \<mapsto> []) else reg)"
  using assms by (auto simp: registry_ok_def markerMap_get_def split: option.splits if_splits)

lemma inherited_not_stored:
  assumes "registry_ok reg" "k \<in> set inherited_keys"
  shows "reg k = None"
  using assms by (simp add: registry_ok_def)

lemma store_marker_ok:
  assumes "registry_ok reg" "store_marker reg m = Inr reg'"
  shows "registry_ok reg'"
proof (cases "mapName m")
  case None
  then have "bucket_key m = ''notDefinedMap''" by (simp add: bucket_key_def)
  moreover from assms(2) None have "push_to reg ''notDefinedMap'' m = Inr reg'"
    by (simp add: store_marker_def)
  ultimately show ?thesis by (rule push_to_ok [OF assms(1)])
next
  case (Some k)
  show ?thesis
  proof (cases "k = []")
    case True
    with Some have "bucket_key m = ''notDefinedMap''" by (simp add: bucket_key_def)
    moreover from assms(2) Some True have "push_to reg ''notDefinedMap'' m = Inr reg'"
      by (simp add: store_marker_def)
    ultimately show ?thesis by (rule push_to_ok [OF assms(1)])
  next
    case False
    with Some have "bucket_key m = k" by (simp add: bucket_key_def)
    moreover from assms(2) Some False
    have "push_to (if markerMap_get reg k = Undefined then reg(k \<mapsto> []) else reg) k m = Inr reg'"
      by (simp add: store_marker_def)
    ultimately show ?thesis by (rule push_to_ok [OF new_bucket_ok [OF assms(1)]])
  qed
qed

lemma store_markers_ok:
  "registry_ok reg \<Longrightarrow> store_markers reg ms = Inr reg' \<Longrightarrow> registry_ok reg'"
  by (induction ms arbitrary: reg) (auto split: sum.splits dest: store_marker_ok)

lemma buildMarkerData_ok:
  "registry_ok reg \<Longrightarrow> buildMarkerData reg fl = Inr reg' \<Longrightarrow> registry_ok reg'"
  by (auto simp: buildMarkerData_def split: option.splits prod.splits if_splits
      dest: store_markers_ok)

lemma extract_from_ok:
  "registry_ok reg \<Longrightarrow> extract_from reg files = Inr reg' \<Longrightarrow> registry_ok reg'"
  by (induction files arbitrary: reg) (auto split: sum.splits dest: buildMarkerData_ok)

lemma extract_all_ok: "extract_all files = Inr reg \<Longrightarrow> registry_ok reg"
  unfolding extract_all_def by (rule extract_from_ok [OF initial_ok])

lemma in_stored_key:
  assumes "registry_ok reg" "m \<in> set (stored reg k)"
  shows "bucket_key m = k"
  using assms by (cases "reg k") (auto simp: registry_ok_def stored_def)

text \<open>
  Claim C6, as amended. After an extraction phase that ends without an exception, for
  every list of files and every map declaration: the marker list can be built whenever
  the declared name of the map is not a property name that the registry object
  inherits, and for such a name building it throws; when it can be built, it is the
  implicit bucket followed by the bucket of the declared name (nothing when the map has
  no name or an empty one); a stored marker
  without \<open>mapName\<close> is in it; a stored marker whose \<open>mapName\<close> is a non-empty name \<open>X\<close>
  other than the key \<open>notDefinedMap\<close> of the implicit bucket is in it exactly when the
  declared name of the map is \<open>X\<close>; and the children of the container that
  \<open>buildMapData\<close> returns for the declaration are the elements of these markers, in
  this order.
\<close>

theorem C6_marker_lists:
  assumes "extract_all files = Inr reg"
  shows
   "((\<forall>n. name d = Some n \<longrightarrow> n \<notin> set inherited_keys) \<longrightarrow> (\<exists>l. map_markers reg d = Inr l))
    \<and> (name d = Some n \<and> n \<in> set inherited_keys \<longrightarrow> map_markers reg d = Inl TypeError)
    \<and> (map_markers reg d = Inr ms \<longrightarrow>
         ms = stored reg ''notDefinedMap''
              @ (case name d of None \<Rightarrow> []
                 | Some n \<Rightarrow> if n = [] then [] else stored reg n)
       \<and> (m \<in> set (stored reg k) \<and> mapName m = None \<longrightarrow> m \<in> set ms)
       \<and> (m \<in> set (stored reg k) \<and> mapName m = Some X \<and> X \<noteq> [] \<and> X \<noteq> ''notDefinedMap''
            \<longrightarrow> (m \<in> set ms \<longleftrightarrow> name d = Some X))
       \<and> (parseMapFromNode ext nd = Inr (Some d) \<and> slug file = Some s \<and> s \<noteq> [] \<longrightarrow>
            (\<exists>c. buildMapData ext reg file nd =
                    Inr (Some (Node ''element'' (Some ''div'') None (Some [c]) (Some [])))
               \<and> children c
                   = Some (map (\<lambda>mk. buildMarkerElement ext mk s (map_minZoom d)) ms))))"
proof (intro conjI)
  show "(\<forall>n. name d = Some n \<longrightarrow> n \<notin> set inherited_keys) \<longrightarrow> (\<exists>l. map_markers reg d = Inr l)"
    using map_markers_plain [of d reg] by blast
next
  have ok: "registry_ok reg" by (rule extract_all_ok [OF assms])
  show "name d = Some n \<and> n \<in> set inherited_keys \<longrightarrow> map_markers reg d = Inl TypeError"
  proof
    assume a: "name d = Some n \<and> n \<in> set inherited_keys"
    then have "reg n = None" using inherited_not_stored [OF ok] by simp
    with a show "map_markers reg d = Inl TypeError"
      by (simp add: map_markers_inherited)
  qed
next
  have ok: "registry_ok reg" by (rule extract_all_ok [OF assms])
  show "map_markers reg d = Inr ms \<longrightarrow>
         ms = stored reg ''notDefinedMap''
              @ (case name d of None \<Rightarrow> []
                 | Some n \<Rightarrow> if n = [] then [] else stored reg n)
       \<and> (m \<in> set (stored reg k) \<and> mapName m = None \<longrightarrow> m \<in> set ms)
       \<and> (m \<in> set (stored reg k) \<and> mapName m = Some X \<and> X \<noteq> [] \<and> X \<noteq> ''notDefinedMap''
            \<longrightarrow> (m \<in> set ms \<longleftrightarrow> name d = Some X))
       \<and> (parseMapFromNode ext nd = Inr (Some d) \<and> slug file = Some s \<and> s \<noteq> [] \<longrightarrow>
            (\<exists>c. buildMapData ext reg file nd =
                    Inr (Some (Node ''element'' (Some ''div'') None (Some [c]) (Some [])))
               \<and> children c
                   = Some (map (\<lambda>mk. buildMarkerElement ext mk s (map_minZoom d)) ms)))"
  proof (intro impI conjI)
    assume mm: "map_markers reg d = Inr ms"
    show val: "ms = stored reg ''notDefinedMap''
              @ (case name d of None \<Rightarrow> []
                 | Some n \<Rightarrow> if n = [] then [] else stored reg n)"
      by (rule map_markers_value [OF mm])
    {
      assume a: "m \<in> set (stored reg k) \<and> mapName m = None"
      then have "bucket_key m = k" using in_stored_key [OF ok] by blast
      with a have "k = ''notDefinedMap''" by (simp add: bucket_key_def)
      with a val show "m \<in> set ms" by simp
    }
    {
      assume a: "m \<in> set (stored reg k) \<and> mapName m = Some X
          \<and> X \<noteq> [] \<and> X \<noteq> ''notDefinedMap''"
      then have key: "bucket_key m = X" by (simp add: bucket_key_def)
      with a have k: "k = X" using in_stored_key [OF ok] by blast
      show "m \<in> set ms \<longleftrightarrow> name d = Some X"
      proof
        assume "name d = Some X"
        with a k val show "m \<in> set ms" by simp
      next
        assume "m \<in> set ms"
        with val consider "m \<in> set (stored reg ''notDefinedMap'')"
          | n where "name d = Some n" "n \<noteq> []" "m \<in> set (stored reg n)"
          by (cases "name d") (auto split: if_splits)
        then show "name d = Some X"
        proof cases
          case 1
          then have "bucket_key m = ''notDefinedMap''" by (rule in_stored_key [OF ok])
          with key a show ?thesis by simp
        next
          case 2
          then have "bucket_key m = n" using in_stored_key [OF ok] by blast
          with key 2 show ?thesis by simp
        qed
      qed
    }
    {
      assume p: "parseMapFromNode ext nd = Inr (Some d) \<and> slug file = Some s \<and> s \<noteq> []"
      then have p1: "parseMapFromNode ext nd = Inr (Some d)" and p2: "slug file = Some s"
        and p3: "s \<noteq> []" by simp_all
      show "\<exists>c. buildMapData ext reg file nd =
                    Inr (Some (Node ''element'' (Some ''div'') None (Some [c]) (Some [])))
               \<and> children c
                   = Some (map (\<lambda>mk. buildMarkerElement ext mk s (map_minZoom d)) ms)"
        by (rule container_children [OF p1 p2 p3 mm])
    }
  qed
qed

lemma parse_town:
  "parseMapFromNode sample_externals (base_block
     ''{views: [{type: leaflet-map, image: town.png, scale: 1, mapName: Town}]}'')
   = Inr (Some (map_named (Some ''Town'')))"
  by (simp add: doc_eval_defs map_eval_defs map_named_def)

lemma parse_harbour:
  "parseMapFromNode sample_externals (base_block
     ''{views: [{type: leaflet-map, image: town.png, scale: 1, mapName: Harbour}]}'')
   = Inr (Some (map_named (Some ''Harbour'')))"
  by (simp add: doc_eval_defs map_eval_defs map_named_def)

lemma parse_toString:
  "parseMapFromNode sample_externals (base_block
     ''{views: [{type: leaflet-map, image: town.png, scale: 1, mapName: toString}]}'')
   = Inr (Some (map_named (Some ''toString'')))"
  by (simp add: doc_eval_defs map_eval_defs map_named_def)

text \<open>
  A map that declares a name which the registry object inherits, and which no marker
  has declared, cannot be rendered: \<open>buildMapData\<close> throws.
\<close>

lemma inherited_map_throws:
  "buildMapData sample_externals
     [''notDefinedMap'' \<mapsto> [marker_of ''5, 5'' None ''Well'' ''well''],
      ''Town'' \<mapsto> [marker_of ''10, 20'' (Some ''Town'') ''Inn'' ''inn'']]
     sample_file
     (base_block ''{views: [{type: leaflet-map, image: town.png, scale: 1, mapName: toString}]}'')
   = Inl TypeError"
proof -
  have sl: "slug sample_file = Some ''town''" "''town'' \<noteq> []"
    by (simp_all add: sample_file_def)
  show ?thesis
    by (rule buildMapData_throws [OF parse_toString sl], rule map_markers_inherited [where n = "''toString''"])
       (simp_all add: map_named_def inherited_keys_def)
qed

text \<open>
  The theorem on two documents: the marker of the well, without \<open>mapName\<close>, is on the
  map of the harbour; the marker of the inn, with \<open>mapName\<close> Town, is on the map named
  Town and not on the map of the harbour; and the container of each map has the
  elements of these markers as its children.
\<close>

theorem C6_marker_lists_witness:
  "extract_all
     [file_with_markers ''inn'' ''Inn''
        [JObj [(''coordinates'', JStr ''10, 20''), (''mapName'', JStr ''Town'')]],
      file_with_markers ''well'' ''Well'' [JObj [(''coordinates'', JStr ''5, 5'')]]]
   = Inr [''notDefinedMap'' \<mapsto> [marker_of ''5, 5'' None ''Well'' ''well''],
          ''Town'' \<mapsto> [marker_of ''10, 20'' (Some ''Town'') ''Inn'' ''inn'']]
   \<and> (\<exists>ms. map_markers
         [''notDefinedMap'' \<mapsto> [marker_of ''5, 5'' None ''Well'' ''well''],
          ''Town'' \<mapsto> [marker_of ''10, 20'' (Some ''Town'') ''Inn'' ''inn'']]
         (map_named (Some ''Harbour'')) = Inr ms
       \<and> marker_of ''5, 5'' None ''Well'' ''well'' \<in> set ms
       \<and> marker_of ''10, 20'' (Some ''Town'') ''Inn'' ''inn'' \<notin> set ms
       \<and> (\<exists>c. buildMapData sample_externals
                [''notDefinedMap'' \<mapsto> [marker_of ''5, 5'' None ''Well'' ''well''],
                 ''Town'' \<mapsto> [marker_of ''10, 20'' (Some ''Town'') ''Inn'' ''inn'']]
                sample_file
                (base_block
                   ''{views: [{type: leaflet-map, image: town.png, scale: 1, mapName: Harbour}]}'')
              = Inr (Some (Node ''element'' (Some ''div'') None (Some [c]) (Some [])))
            \<and> children c = Some (map (\<lambda>mk. buildMarkerElement sample_externals mk ''town'' 0) ms)))
   \<and> (\<exists>ms. map_markers
         [''notDefinedMap'' \<mapsto> [marker_of ''5, 5'' None ''Well'' ''well''],
          ''Town'' \<mapsto> [marker_of ''10, 20'' (Some ''Town'') ''Inn'' ''inn'']]
         (map_named (Some ''Town'')) = Inr ms
       \<and> marker_of ''5, 5'' None ''Well'' ''well'' \<in> set ms
       \<and> marker_of ''10, 20'' (Some ''Town'') ''Inn'' ''inn'' \<in> set ms
       \<and> (\<exists>c. buildMapData sample_externals
                [''notDefinedMap'' \<mapsto> [marker_of ''5, 5'' None ''Well'' ''well''],
                 ''Town'' \<mapsto> [marker_of ''10, 20'' (Some ''Town'') ''Inn'' ''inn'']]
                sample_file
                (base_block
                   ''{views: [{type: leaflet-map, image: town.png, scale: 1, mapName: Town}]}'')
              = Inr (Some (Node ''element'' (Some ''div'') None (Some [c]) (Some [])))
            \<and> children c = Some (map (\<lambda>mk. buildMarkerElement sample_externals mk ''town'' 0) ms)))"
proof -
  let ?files = "[file_with_markers ''inn'' ''Inn''
               [JObj [(''coordinates'', JStr ''10, 20''), (''mapName'', JStr ''Town'')]],
             file_with_markers ''well'' ''Well'' [JObj [(''coordinates'', JStr ''5, 5'')]]]"
  let ?well = "marker_of ''5, 5'' None ''Well'' ''well''"
  let ?inn = "marker_of ''10, 20'' (Some ''Town'') ''Inn'' ''inn''"
  let ?reg = "[''notDefinedMap'' \<mapsto> [?well], ''Town'' \<mapsto> [?inn]]"
  let ?harbour = "map_named (Some ''Harbour'')"
  let ?town = "map_named (Some ''Town'')"
  let ?hb = "base_block
     ''{views: [{type: leaflet-map, image: town.png, scale: 1, mapName: Harbour}]}''"
  let ?tb = "base_block
     ''{views: [{type: leaflet-map, image: town.png, scale: 1, mapName: Town}]}''"
  have sl: "slug sample_file = Some ''town'' \<and> ''town'' \<noteq> []"
    by (simp add: sample_file_def)
  have w: "?well \<in> set (stored ?reg ''notDefinedMap'') \<and> mapName ?well = None"
    by (simp add: stored_def) (simp add: marker_of_def)
  have i: "?inn \<in> set (stored ?reg ''Town'') \<and> mapName ?inn = Some ''Town''
      \<and> ''Town'' \<noteq> [] \<and> ''Town'' \<noteq> ''notDefinedMap''"
    by (simp add: stored_def) (simp add: marker_of_def)
  have n1: "name ?town = Some ''Town''" and n2: "name ?harbour \<noteq> Some ''Town''"
    and z: "map_minZoom ?harbour = 0" "map_minZoom ?town = 0"
    and p1: "\<forall>n. name ?harbour = Some n \<longrightarrow> n \<notin> set inherited_keys"
    and p2: "\<forall>n. name ?town = Some n \<longrightarrow> n \<notin> set inherited_keys"
    by (simp_all add: map_named_def inherited_keys_def map_minZoom_def default_minZoom_def)
  from C6_marker_lists [OF town_registry, THEN conjunct1, THEN mp, OF p1]
  obtain hs where hs: "map_markers ?reg ?harbour = Inr hs" by (rule exE)
  from C6_marker_lists [OF town_registry, THEN conjunct1, THEN mp, OF p2]
  obtain ts where ts: "map_markers ?reg ?town = Inr ts" by (rule exE)
  note H = C6_marker_lists [OF town_registry, THEN conjunct2, THEN conjunct2, THEN mp, OF hs]
  note T = C6_marker_lists [OF town_registry, THEN conjunct2, THEN conjunct2, THEN mp, OF ts]
  have h1: "?well \<in> set hs"
    by (rule H [THEN conjunct2, THEN conjunct1, THEN mp, OF w])
  have h2: "?inn \<notin> set hs"
    using H [THEN conjunct2, THEN conjunct2, THEN conjunct1, THEN mp, OF i] n2 by simp
  have h3: "\<exists>c. buildMapData sample_externals ?reg sample_file ?hb
              = Inr (Some (Node ''element'' (Some ''div'') None (Some [c]) (Some [])))
            \<and> children c = Some (map (\<lambda>mk. buildMarkerElement sample_externals mk ''town'' 0) hs)"
    using H [THEN conjunct2, THEN conjunct2, THEN conjunct2, THEN mp, OF conjI [OF parse_harbour sl]]
    by (simp only: z)
  have t1: "?well \<in> set ts"
    by (rule T [THEN conjunct2, THEN conjunct1, THEN mp, OF w])
  have t2: "?inn \<in> set ts"
    using T [THEN conjunct2, THEN conjunct2, THEN conjunct1, THEN mp, OF i] n1 by simp
  have t3: "\<exists>c. buildMapData sample_externals ?reg sample_file ?tb
              = Inr (Some (Node ''element'' (Some ''div'') None (Some [c]) (Some [])))
            \<and> children c = Some (map (\<lambda>mk. buildMarkerElement sample_externals mk ''town'' 0) ts)"
    using T [THEN conjunct2, THEN conjunct2, THEN conjunct2, THEN mp, OF conjI [OF parse_town sl]]
    by (simp only: z)
  have A: "\<exists>ms. map_markers ?reg ?harbour = Inr ms \<and> ?well \<in> set ms \<and> ?inn \<notin> set ms
      \<and> (\<exists>c. buildMapData sample_externals ?reg sample_file ?hb
              = Inr (Some (Node ''element'' (Some ''div'') None (Some [c]) (Some [])))
            \<and> children c = Some (map (\<lambda>mk. buildMarkerElement sample_externals mk ''town'' 0) ms))"
    by (rule exI [of _ hs]) (intro conjI hs h1 h2 h3)
  have B: "\<exists>ms. map_markers ?reg ?town = Inr ms \<and> ?well \<in> set ms \<and> ?inn \<in> set ms
      \<and> (\<exists>c. buildMapData sample_externals ?reg sample_file ?tb
              = Inr (Some (Node ''element'' (Some ''div'') None (Some [c]) (Some [])))
            \<and> children c = Some (map (\<lambda>mk. buildMarkerElement sample_externals mk ''town'' 0) ms))"
    by (rule exI [of _ ts]) (intro conjI ts t1 t2 t3)
  show ?thesis by (intro conjI town_registry A B)
qed

text \<open>
  Claim C6 as stated fails for the name \<open>notDefinedMap\<close>: a marker declared with that
  \<open>mapName\<close> is stored in the implicit bucket and appears on a map named Town.
\<close>

theorem C6_counterexample:
  "extract_all [file_with_markers ''inn'' ''Inn''
       [JObj [(''coordinates'', JStr ''1, 2''), (''mapName'', JStr ''notDefinedMap'')]]]
     = Inr [''notDefinedMap'' \<mapsto> [marker_of ''1, 2'' (Some ''notDefinedMap'') ''Inn'' ''inn'']]
   \<and> mapName (marker_of ''1, 2'' (Some ''notDefinedMap'') ''Inn'' ''inn'') = Some ''notDefinedMap''
   \<and> map_markers
       [''notDefinedMap'' \<mapsto> [marker_of ''1, 2'' (Some ''notDefinedMap'') ''Inn'' ''inn'']]
       (map_named (Some ''Town''))
     = Inr [marker_of ''1, 2'' (Some ''notDefinedMap'') ''Inn'' ''inn'']
   \<and> name (map_named (Some ''Town'')) \<noteq> Some ''notDefinedMap''"
  by (simp add: marker_eval_defs)

text \<open>
  Claim C7, as amended. For every view that passes validation and carries a string
  field \<open>mapName\<close>, the name of the resulting declaration is that field (the field
  \<open>name\<close> of a view is not read); and when that name is not empty and not a property
  name that the registry object inherits, it is the key of the named bucket that the
  marker list is read from: the marker list is the implicit bucket followed by the
  bucket of that name, and the children of the container that \<open>buildMapData\<close> returns
  for the declaration are the elements of these markers. When the name is an inherited
  property name that the registry does not hold as a key of its own, reading the
  marker list throws.
\<close>

theorem C7_name_is_mapName:
  assumes "mapFromView view = Some m" "getprop view ''mapName'' = JStr n"
  shows "name m = Some n \<and>
    (n \<noteq> [] \<and> n \<notin> set inherited_keys \<longrightarrow>
       map_markers reg m = Inr (stored reg ''notDefinedMap'' @ stored reg n)
     \<and> (parseMapFromNode ext nd = Inr (Some m) \<and> slug file = Some s \<and> s \<noteq> [] \<longrightarrow>
          (\<exists>c. buildMapData ext reg file nd =
                  Inr (Some (Node ''element'' (Some ''div'') None (Some [c]) (Some [])))
             \<and> children c
                 = Some (map (\<lambda>mk. buildMarkerElement ext mk s (map_minZoom m))
                           (stored reg ''notDefinedMap'' @ stored reg n)))))
    \<and> (n \<in> set inherited_keys \<and> reg n = None \<longrightarrow> map_markers reg m = Inl TypeError)"
proof -
  from assms(1) have "m = as_MapObject (view_object view)"
    by (simp add: mapFromView_def split: if_splits)
  with assms(2) have nm: "name m = Some n"
    by (simp add: as_MapObject_def view_object_def str_field_def)
  have rest: "map_markers reg m = Inr (stored reg ''notDefinedMap'' @ stored reg n)
     \<and> (parseMapFromNode ext nd = Inr (Some m) \<and> slug file = Some s \<and> s \<noteq> [] \<longrightarrow>
          (\<exists>c. buildMapData ext reg file nd =
                  Inr (Some (Node ''element'' (Some ''div'') None (Some [c]) (Some [])))
             \<and> children c
                 = Some (map (\<lambda>mk. buildMarkerElement ext mk s (map_minZoom m))
                           (stored reg ''notDefinedMap'' @ stored reg n))))"
    if n: "n \<noteq> [] \<and> n \<notin> set inherited_keys"
  proof -
    from nm n have "\<forall>k. name m = Some k \<longrightarrow> k \<notin> set inherited_keys" by simp
    then obtain ms where ms: "map_markers reg m = Inr ms"
      using map_markers_plain [of m reg] by blast
    from map_markers_value [OF ms] nm n
    have "ms = stored reg ''notDefinedMap'' @ stored reg n" by simp
    with ms have mm: "map_markers reg m = Inr (stored reg ''notDefinedMap'' @ stored reg n)"
      by simp
    show ?thesis
    proof (intro conjI impI)
      show "map_markers reg m = Inr (stored reg ''notDefinedMap'' @ stored reg n)" by (rule mm)
    next
      assume p: "parseMapFromNode ext nd = Inr (Some m) \<and> slug file = Some s \<and> s \<noteq> []"
      then have p1: "parseMapFromNode ext nd = Inr (Some m)" and p2: "slug file = Some s"
        and p3: "s \<noteq> []" by simp_all
      show "\<exists>c. buildMapData ext reg file nd =
                  Inr (Some (Node ''element'' (Some ''div'') None (Some [c]) (Some [])))
             \<and> children c
                 = Some (map (\<lambda>mk. buildMarkerElement ext mk s (map_minZoom m))
                           (stored reg ''notDefinedMap'' @ stored reg n))"
        by (rule container_children [OF p1 p2 p3 mm])
    qed
  qed
  have thrown: "n \<in> set inherited_keys \<and> reg n = None \<longrightarrow> map_markers reg m = Inl TypeError"
    using nm by (simp add: map_markers_inherited)
  show ?thesis
  proof (rule conjI [OF nm], rule conjI [OF _ thrown], rule impI)
    assume "n \<noteq> [] \<and> n \<notin> set inherited_keys"
    then show "map_markers reg m = Inr (stored reg ''notDefinedMap'' @ stored reg n)
     \<and> (parseMapFromNode ext nd = Inr (Some m) \<and> slug file = Some s \<and> s \<noteq> [] \<longrightarrow>
          (\<exists>c. buildMapData ext reg file nd =
                  Inr (Some (Node ''element'' (Some ''div'') None (Some [c]) (Some [])))
             \<and> children c
                 = Some (map (\<lambda>mk. buildMarkerElement ext mk s (map_minZoom m))
                           (stored reg ''notDefinedMap'' @ stored reg n))))"
      by (rule rest)
  qed
qed

text \<open>
  The theorem at a view with \<open>mapName\<close> Town, in a block of a page: its container shows
  the marker of the implicit bucket and the marker stored under Town.
\<close>

theorem C7_name_is_mapName_witness:
  "mapFromView (JObj [(''type'', JStr ''leaflet-map''), (''image'', JStr ''town.png''),
                      (''scale'', JNum (Fin 1)), (''mapName'', JStr ''Town'')])
     = Some (map_named (Some ''Town''))
   \<and> name (map_named (Some ''Town'')) = Some ''Town''
   \<and> map_markers
       [''notDefinedMap'' \<mapsto> [marker_of ''5, 5'' None ''Well'' ''well''],
        ''Town'' \<mapsto> [marker_of ''10, 20'' (Some ''Town'') ''Inn'' ''inn'']]
       (map_named (Some ''Town''))
     = Inr [marker_of ''5, 5'' None ''Well'' ''well'',
            marker_of ''10, 20'' (Some ''Town'') ''Inn'' ''inn'']
   \<and> (\<exists>c. buildMapData sample_externals
            [''notDefinedMap'' \<mapsto> [marker_of ''5, 5'' None ''Well'' ''well''],
             ''Town'' \<mapsto> [marker_of ''10, 20'' (Some ''Town'') ''Inn'' ''inn'']]
            sample_file
            (base_block
               ''{views: [{type: leaflet-map, image: town.png, scale: 1, mapName: Town}]}'')
          = Inr (Some (Node ''element'' (Some ''div'') None (Some [c]) (Some [])))
        \<and> children c
            = Some [buildMarkerElement sample_externals
                      (marker_of ''5, 5'' None ''Well'' ''well'') ''town'' 0,
                    buildMarkerElement sample_externals
                      (marker_of ''10, 20'' (Some ''Town'') ''Inn'' ''inn'') ''town'' 0])"
proof -
  let ?view = "JObj [(''type'', JStr ''leaflet-map''), (''image'', JStr ''town.png''),
                      (''scale'', JNum (Fin 1)), (''mapName'', JStr ''Town'')]"
  let ?well = "marker_of ''5, 5'' None ''Well'' ''well''"
  let ?inn = "marker_of ''10, 20'' (Some ''Town'') ''Inn'' ''inn''"
  let ?reg = "[''notDefinedMap'' \<mapsto> [?well], ''Town'' \<mapsto> [?inn]]"
  let ?tb = "base_block
     ''{views: [{type: leaflet-map, image: town.png, scale: 1, mapName: Town}]}''"
  have ok: "mapFromView ?view = Some (map_named (Some ''Town''))"
    by (simp add: map_eval_defs map_named_def)
  have mn: "getprop ?view ''mapName'' = JStr ''Town''" by simp
  have n: "''Town'' \<noteq> [] \<and> ''Town'' \<notin> set inherited_keys"
    by (simp add: inherited_keys_def)
  have sl: "slug sample_file = Some ''town'' \<and> ''town'' \<noteq> []"
    by (simp add: sample_file_def)
  have st: "stored ?reg ''notDefinedMap'' @ stored ?reg ''Town'' = [?well, ?inn]"
    by (simp add: stored_def)
  have z: "map_minZoom (map_named (Some ''Town'')) = 0"
    by (simp add: map_named_def map_minZoom_def default_minZoom_def)
  note T = C7_name_is_mapName [OF ok mn, of ?reg sample_externals ?tb sample_file "''town''"]
  have 1: "name (map_named (Some ''Town'')) = Some ''Town''"
    by (rule T [THEN conjunct1])
  note R = T [THEN conjunct2, THEN conjunct1, THEN mp, OF n]
  have 2: "map_markers ?reg (map_named (Some ''Town'')) = Inr [?well, ?inn]"
    using R [THEN conjunct1] by (simp only: st)
  have 3: "\<exists>c. buildMapData sample_externals ?reg sample_file ?tb
          = Inr (Some (Node ''element'' (Some ''div'') None (Some [c]) (Some [])))
        \<and> children c
            = Some [buildMarkerElement sample_externals ?well ''town'' 0,
                    buildMarkerElement sample_externals ?inn ''town'' 0]"
    using R [THEN conjunct2, THEN mp, OF conjI [OF parse_town sl]]
    by (simp only: st z list.map)
  show ?thesis by (intro conjI ok 1 2 3)
qed

text \<open>
  Claim C7 as stated fails: a valid view with the string field \<open>name\<close> Town gives a
  declaration without a name, and the marker stored under Town is not on its map.
\<close>

theorem C7_counterexample:
  "mapFromView (JObj [(''type'', JStr ''leaflet-map''), (''image'', JStr ''town.png''),
                      (''scale'', JNum (Fin 1)), (''name'', JStr ''Town'')])
     = Some (map_named None)
   \<and> name (map_named None) \<noteq> Some ''Town''
   \<and> extract_all
       [file_with_markers ''inn'' ''Inn''
          [JObj [(''coordinates'', JStr ''10, 20''), (''mapName'', JStr ''Town'')]]]
     = Inr [''notDefinedMap'' \<mapsto> [],
            ''Town'' \<mapsto> [marker_of ''10, 20'' (Some ''Town'') ''Inn'' ''inn'']]
   \<and> map_markers
       [''notDefinedMap'' \<mapsto> [],
        ''Town'' \<mapsto> [marker_of ''10, 20'' (Some ''Town'') ''Inn'' ''inn'']]
       (map_named None)
     = Inr []"
  by (simp add: map_eval_defs marker_eval_defs)

subsection \<open>The client map controller\<close>

lemmas client_eval_defs = dataset_of_def isMapDataSet_def ds_truthy_def client_isNonEmptyObject_def
  to_upper_def initialiseMap_def

text \<open>
  Claim C3 asks that the client accept every container that the transform emits. It
  does not: for a declaration without a unit, or with an empty one, the container
  carries an empty \<open>data-unit\<close>, the check \<open>isMapDataSet\<close> reads it as missing, and
  \<open>initialiseMap\<close> returns before the image is fetched, whatever the fetch would give.
  (A container is emitted unless the declared name is a property name that the registry
  object inherits; for such a name the transform throws.)
\<close>

theorem C3_empty_unit_rejected:
  assumes "parseMapFromNode ext nd = Inr (Some m)" "slug file = Some s" "s \<noteq> []"
    "unit m = None \<or> unit m = Some []"
    "\<forall>k. name m = Some k \<longrightarrow> k \<notin> set inherited_keys"
  shows "\<exists>c. buildMapData ext reg file nd =
            Inr (Some (Node ''element'' (Some ''div'') None (Some [c]) (Some [])))
     \<and> attribute c ''data-unit'' = Some (AStr [])
     \<and> \<not> isMapDataSet (dataset_of c) \<and> initialiseMap c n fetched = Inr None"
proof -
  from assms(5) obtain mks where mks: "map_markers reg m = Inr mks"
    using map_markers_plain [of m reg] by blast
  show ?thesis
    unfolding buildMapData_container [OF assms(1-3) mks]
    using assms(4) by (auto simp: attribute_def client_eval_defs default_unit_def)
qed

text \<open>The theorem at the view \<open>{type: leaflet-map, image: town.png, scale: 1}\<close>.\<close>

theorem C3_empty_unit_rejected_witness:
  "\<exists>c. buildMapData sample_externals initial_markerMap sample_file
          (base_block ''{views: [{type: leaflet-map, image: town.png, scale: 1}]}'')
        = Inr (Some (Node ''element'' (Some ''div'') None (Some [c]) (Some [])))
     \<and> attribute c ''data-unit'' = Some (AStr [])
     \<and> \<not> isMapDataSet (dataset_of c)
     \<and> initialiseMap c [] (Some (800, 600)) = Inr None"
proof -
  have p: "parseMapFromNode sample_externals
      (base_block ''{views: [{type: leaflet-map, image: town.png, scale: 1}]}'')
      = Inr (Some (map_named None))"
    by (simp add: doc_eval_defs map_eval_defs map_named_def)
  have sl: "slug sample_file = Some ''town''" "''town'' \<noteq> []"
    by (simp_all add: sample_file_def)
  have u: "unit (map_named None) = None \<or> unit (map_named None) = Some []"
    by (simp add: map_named_def)
  have k: "\<forall>k. name (map_named None) = Some k \<longrightarrow> k \<notin> set inherited_keys"
    by (simp add: map_named_def)
  from C3_empty_unit_rejected [OF p sl u k] show ?thesis by blast
qed

subsection \<open>Exceptions of the document transform\<close>

lemma visitor_no_map:
  "parseMapFromNode ext nd = Inr None \<Longrightarrow> visitor ext reg file nd = Inr None"
  by (simp add: visitor_def buildMapData_def)

lemma visitor_not_base:
  "\<not> is_base_block nd \<Longrightarrow>
   (if tagName nd = Some ''code'' then visitor ext reg file nd else Inr None) = Inr None"
  by (auto simp: is_base_block_def visitor_def)

lemma visitor_load_fails:
  "is_base_block nd \<Longrightarrow> load ext (source nd) = Inl e \<Longrightarrow> visitor ext reg file nd = Inl e"
  by (simp add: is_base_block_def visitor_def buildMapData_def parseMapFromNode_def)

lemma visit_unchanged:
  "(\<forall>b \<in> set (base_blocks n). parseMapFromNode ext b = Inr None)
     \<Longrightarrow> visit_node ext reg fl n = Inr n"
  "(\<forall>b \<in> set (base_blocks_list cs). parseMapFromNode ext b = Inr None)
     \<Longrightarrow> visit_children ext reg fl cs = Inr cs"
proof (induction ext reg fl n and ext reg fl cs rule: visit_node_visit_children.induct)
  case (1 ext reg fl ty tg val props)
  show ?case by simp
next
  case (2 ext reg fl ty tg val cs props)
  then show ?case by simp
next
  case (3 ext reg fl)
  show ?case by simp
next
  case (4 ext reg fl c cs)
  have v: "(if tagName c = Some ''code'' then visitor ext reg fl c else Inr None) = Inr None"
  proof (cases "is_base_block c")
    case True
    with 4(3) have "parseMapFromNode ext c = Inr None" by simp
    then show ?thesis by (simp add: visitor_no_map)
  next
    case False
    then show ?thesis by (rule visitor_not_base)
  qed
  from 4(3) have c: "\<forall>b \<in> set (base_blocks c). parseMapFromNode ext b = Inr None"
    and cs: "\<forall>b \<in> set (base_blocks_list cs). parseMapFromNode ext b = Inr None"
    by simp_all
  from 4(1) [OF v c] have 1: "visit_node ext reg fl c = Inr c" .
  from 4(2) [OF v 1 cs] have 2: "visit_children ext reg fl cs = Inr cs" .
  from v 1 2 show ?case by simp
qed

text \<open>
  Claim C4, as amended. A tree in which no block of the language \<open>base\<close> yields a valid
  map (the body was parsed, and no view passed) goes through the document transform
  without an exception and comes back unchanged. A block whose body the loader cannot
  parse makes the transform raise the exception of the loader: nothing catches it.
\<close>

theorem C4_transform_exceptions:
  "((\<forall>b \<in> set (base_blocks tree). parseMapFromNode ext b = Inr None)
      \<longrightarrow> transformMapElement ext reg tree file = Inr tree)
   \<and> (is_base_block nd \<and> load ext (source nd) = Inl e
      \<longrightarrow> transformMapElement ext reg (page_of nd) file = Inl e)"
proof (intro conjI impI)
  assume "\<forall>b \<in> set (base_blocks tree). parseMapFromNode ext b = Inr None"
  then show "transformMapElement ext reg tree file = Inr tree"
    by (simp add: transformMapElement_def visit_unchanged)
next
  assume a: "is_base_block nd \<and> load ext (source nd) = Inl e"
  then have "visitor ext reg file nd = Inl e" by (simp add: visitor_load_fails)
  moreover from a have "tagName nd = Some ''code''" by (simp add: is_base_block_def)
  ultimately show "transformMapElement ext reg (page_of nd) file = Inl e"
    by (simp add: transformMapElement_def page_of_def)
qed

lemmas tree_eval_defs = is_base_block_def dataLanguage_def attribute_def page_of_def

text \<open>
  The theorem at a page with the block \<open>{views: [{type: leaflet-map}]}\<close>, which comes
  back unchanged, and at a page with the unclosed sequence, which raises.
\<close>

theorem C4_transform_exceptions_witness:
  "transformMapElement sample_externals initial_markerMap
      (page_of (base_block ''{views: [{type: leaflet-map}]}'')) sample_file
     = Inr (page_of (base_block ''{views: [{type: leaflet-map}]}''))
   \<and> (\<exists>e. transformMapElement sample_externals initial_markerMap
      (page_of (base_block ''views: ['')) sample_file = Inl e)"
proof -
  have b: "base_blocks (page_of (base_block body)) = [base_block body]" for body
    by (simp add: page_of_def base_block_def is_base_block_def dataLanguage_def attribute_def)
  have 1: "parseMapFromNode sample_externals (base_block ''{views: [{type: leaflet-map}]}'')
      = Inr None"
    by (simp add: doc_eval_defs map_eval_defs)
  have 2: "is_base_block (base_block ''views: ['')
      \<and> load sample_externals (source (base_block ''views: ['')) = Inl YAMLException"
    by (simp add: tree_eval_defs doc_eval_defs)
  from C4_transform_exceptions [of "page_of (base_block ''{views: [{type: leaflet-map}]}'')"
      sample_externals initial_markerMap sample_file] 1 b
  have r1: "transformMapElement sample_externals initial_markerMap
      (page_of (base_block ''{views: [{type: leaflet-map}]}'')) sample_file
     = Inr (page_of (base_block ''{views: [{type: leaflet-map}]}''))"
    by simp
  from C4_transform_exceptions [of _ sample_externals initial_markerMap sample_file
      "base_block ''views: [''" YAMLException] 2
  have r2: "transformMapElement sample_externals initial_markerMap
      (page_of (base_block ''views: ['')) sample_file = Inl YAMLException"
    by blast
  from r1 r2 show ?thesis by blast
qed

text \<open>
  Claim C4 as stated fails: the body \<open>views: [\<close> cannot be parsed, and the exception of
  the loader leaves the document transform.
\<close>

theorem C4_counterexample:
  "is_base_block (base_block ''views: ['')
   \<and> load sample_externals (source (base_block ''views: ['')) = Inl YAMLException
   \<and> transformMapElement sample_externals initial_markerMap
       (page_of (base_block ''views: ['')) sample_file = Inl YAMLException"
  by (simp add: tree_eval_defs doc_eval_defs transformMapElement_def visitor_def)

subsection \<open>Coordinates\<close>

lemma needs_comma_not_nullable: "needs_comma r \<Longrightarrow> \<not> nullable r"
  by (induction r) auto

lemma needs_comma_deriv: "needs_comma r \<Longrightarrow> c \<noteq> CHR '','' \<Longrightarrow> needs_comma (deriv c r)"
  by (induction r) (auto simp: needs_comma_not_nullable)

lemma rx_prefix_comma: "needs_comma r \<Longrightarrow> rx_prefix r s \<Longrightarrow> CHR '','' \<in> set s"
proof (induction s arbitrary: r)
  case Nil
  then show ?case by (simp add: needs_comma_not_nullable)
next
  case (Cons c cs)
  then show ?case
    by (cases "c = CHR '',''") (auto simp: needs_comma_not_nullable dest: needs_comma_deriv)
qed

lemma rx_test_comma: "needs_comma r \<Longrightarrow> rx_test r s \<Longrightarrow> CHR '','' \<in> set s"
proof (induction s)
  case Nil
  then show ?case by (simp add: needs_comma_not_nullable)
next
  case (Cons c cs)
  then show ?case using rx_prefix_comma [of r "c # cs"] by auto
qed

lemma coordinates_need_comma: "needs_comma coordinatesValidation"
  by (simp add: coordinatesValidation_def Plus_def)

lemma rx_prefix_append: "rx_prefix r s \<Longrightarrow> rx_prefix r (s @ t)"
proof (induction s arbitrary: r)
  case Nil
  then show ?case by (cases t) simp_all
next
  case (Cons c cs)
  then show ?case by auto
qed

lemma rx_test_append: "rx_test r s \<Longrightarrow> rx_test r (s @ t)"
proof (induction s)
  case Nil
  then show ?case by (induction t) simp_all
next
  case (Cons c cs)
  then show ?case using rx_prefix_append [of r "c # cs" t] by auto
qed

lemma split_nonempty: "split sep s \<noteq> []"
  by (induction s) (auto split: list.splits)

lemma length_split: "length (split sep s) = Suc (length (filter (\<lambda>c. c = sep) s))"
  by (induction s) (auto split: list.splits simp: split_nonempty)

lemma commas_kept:
  "filter (\<lambda>c. c = CHR '','') (filter (\<lambda>c. c \<noteq> CHR ''s'') s) = filter (\<lambda>c. c = CHR '','') s"
proof -
  have "(c \<noteq> CHR ''s'' \<and> c = CHR '','') = (c = CHR '','')" for c :: char by auto
  then show ?thesis by simp
qed

lemma parseCoordinates_throws:
  assumes "length (filter (\<lambda>c. c = CHR '','') s) \<noteq> 1"
  shows "parseCoordinates s = Inl (Error ''Coordinates not properly validated'')"
proof -
  have "length (split (CHR '','') (filter (\<lambda>c. c \<noteq> CHR ''s'') s))
      = Suc (length (filter (\<lambda>c. c = CHR '','') s))"
    unfolding length_split commas_kept ..
  with assms show ?thesis by (simp add: parseCoordinates_def)
qed

text \<open>
  \<open>parseCoordinates\<close> keeps the white space, which \<open>parseInt\<close> then skips, and drops the
  letter s.
\<close>

lemma parseCoordinates_keeps_space: "parseCoordinates ''1 , 2'' = Inr [Fin 1, Fin 2]"
  by (simp add: parseCoordinates_def parseInt_def to_double_def digits_val_def
      digit_val_def is_digit_def space_prefix_def white_space_def)

lemma parseCoordinates_drops_s: "parseCoordinates ''1s2, 3'' = Inr [Fin 12, Fin 3]"
  by (simp add: parseCoordinates_def parseInt_def to_double_def digits_val_def
      digit_val_def is_digit_def space_prefix_def white_space_def)

text \<open>
  Claim C8 asks that an accepted coordinates text split into exactly two components.
  The pattern is not anchored: whenever the validator accepts a text, it also accepts
  that text followed by a comma and anything, and on the longer text
  \<open>parseCoordinates\<close> finds more than two components and throws.
\<close>

theorem C8_validator_not_anchored:
  assumes "coordinatesValidator (JStr s)"
  shows "coordinatesValidator (JStr (s @ '','' @ t))
     \<and> parseCoordinates (s @ '','' @ t) = Inl (Error ''Coordinates not properly validated'')"
proof -
  from assms have acc: "rx_test coordinatesValidation s" by simp
  then have "CHR '','' \<in> set s" by (rule rx_test_comma [OF coordinates_need_comma])
  then have "filter (\<lambda>c. c = CHR '','') s \<noteq> []" by (simp add: filter_empty_conv)
  then have "length (filter (\<lambda>c. c = CHR '','') s) \<ge> 1"
    by (cases "filter (\<lambda>c. c = CHR '','') s") simp_all
  moreover have "length (filter (\<lambda>c. c = CHR '','') (s @ '','' @ t))
      = length (filter (\<lambda>c. c = CHR '','') s) + 1 + length (filter (\<lambda>c. c = CHR '','') t)"
    by simp
  ultimately have "length (filter (\<lambda>c. c = CHR '','') (s @ '','' @ t)) \<noteq> 1" by linarith
  then have "parseCoordinates (s @ '','' @ t) = Inl (Error ''Coordinates not properly validated'')"
    by (rule parseCoordinates_throws)
  moreover from acc have "coordinatesValidator (JStr (s @ '','' @ t))"
    by (simp add: rx_test_append)
  ultimately show ?thesis by simp
qed

lemmas rx_eval_defs = coordinatesValidation_def Plus_def rx_digit_def rx_space_def rx_text_def white_space_def

text \<open>
  The theorem at \<open>1,2\<close> extended by \<open>,3\<close>: the marker entry with the coordinates
  \<open>1,2,3\<close> passes the validation of the build, and the client throws on its element.
\<close>

theorem C8_validator_not_anchored_witness:
  "coordinatesValidator (JStr ''1,2'')
   \<and> parseMarkerFromEntry (JObj [(''coordinates'', JStr ''1,2,3'')]) ''Inn'' ''inn''
       = Some (marker_of ''1,2,3'' None ''Inn'' ''inn'')
   \<and> parseCoordinates ''1,2,3'' = Inl (Error ''Coordinates not properly validated'')
   \<and> isMarkerDataSet (dataset_of (buildMarkerElement sample_externals
         (marker_of ''1,2,3'' None ''Inn'' ''inn'') ''town'' 0))
   \<and> addMarker (dataset_of (buildMarkerElement sample_externals
         (marker_of ''1,2,3'' None ''Inn'' ''inn'') ''town'' 0))
       = Inl (Error ''Coordinates not properly validated'')"
proof -
  have c: "isMarkerDataSet (dataset_of (buildMarkerElement sample_externals
         (marker_of ''1,2,3'' None ''Inn'' ''inn'') ''town'' 0))"
    by (simp add: isMarkerDataSet_def client_isNonEmptyObject_def ds_truthy_def dataset_of_def
        buildMarkerElement_def marker_of_def to_upper_def sample_externals_def default_icon_def
        default_colour_def)
  have a: "coordinatesValidator (JStr ''1,2'')" by (simp add: rx_eval_defs)
  from C8_validator_not_anchored [OF a, of "''3''"]
  have v: "coordinatesValidator (JStr ''1,2,3'')"
    and p: "parseCoordinates ''1,2,3'' = Inl (Error ''Coordinates not properly validated'')"
    by simp_all
  from v have m: "parseMarkerFromEntry (JObj [(''coordinates'', JStr ''1,2,3'')]) ''Inn'' ''inn''
       = Some (marker_of ''1,2,3'' None ''Inn'' ''inn'')"
    by (simp add: parseMarkerFromEntry_def isProperEntry_def isNonEmptyObject_def
        SchemaValidator_marker_def schemaValidatorFactory_def markerSchema_def validator_defs
        str_field_def num_field_def marker_of_def)
  have d: "map_of (dataset_of (buildMarkerElement sample_externals
         (marker_of ''1,2,3'' None ''Inn'' ''inn'') ''town'' 0)) ''coordinates'' = Some (AStr ''1,2,3'')"
    by (simp add: dataset_of_def buildMarkerElement_def marker_of_def to_upper_def)
  from p d have "addMarker (dataset_of (buildMarkerElement sample_externals
         (marker_of ''1,2,3'' None ''Inn'' ''inn'') ''town'' 0))
       = Inl (Error ''Coordinates not properly validated'')"
    by (simp add: addMarker_def)
  with a m p c show ?thesis by simp
qed

subsection \<open>The measure tool\<close>


text \<open>
  The handlers keep the layers that \<open>onAdded\<close> creates, and on a tool with its layers a
  map click never throws.
\<close>

lemma onAdded_layers: "lineLayer (onAdded s) \<and> pointLayer (onAdded s) = Some []"
  by (simp add: onAdded_def)

lemma measure_state_initial:
  "(onAdded new_MeasureControl)\<lparr>options_unit := ''ft''\<rparr> = measure_state Ready [] 0 None"
  by (simp add: onAdded_def new_MeasureControl_def measure_state_def)

lemma renderPath_layers:
  assumes "lineLayer s" "pointLayer s \<noteq> None"
  shows "\<exists>s'. renderPath rt s = Inr s' \<and> lineLayer s' \<and> pointLayer s' \<noteq> None"
  using assms
  by (auto simp: renderPath_def cleanLastElement_def Let_def split: option.splits)

lemma mapClicked_layers:
  assumes "lineLayer s" "pointLayer s \<noteq> None"
  shows "\<exists>s'. mapClicked rt s p = Inr s' \<and> lineLayer s' \<and> pointLayer s' \<noteq> None"
proof (cases "state s")
  case Ready
  with assms renderPath_layers [of "s\<lparr>state := Measuring, pathItems := pathItems s @ [p]\<rparr>" rt]
  show ?thesis by (simp add: mapClicked_def)
next
  case Measuring
  with assms renderPath_layers [of "s\<lparr>state := Measuring, pathItems := pathItems s @ [p]\<rparr>" rt]
  show ?thesis by (simp add: mapClicked_def)
next
  case Finishing
  with assms show ?thesis by (simp add: mapClicked_def)
next
  case Done
  with assms show ?thesis
    by (auto simp: mapClicked_def resetPath_def cleanLastElement_def)
qed

lemma other_handlers_layers:
  assumes "lineLayer s" "pointLayer s \<noteq> None"
  shows "lineLayer (lastElementClicked s) \<and> pointLayer (lastElementClicked s) \<noteq> None
    \<and> lineLayer (onDeselected s) \<and> pointLayer (onDeselected s) \<noteq> None"
  using assms
  by (auto simp: lastElementClicked_def onDeselected_def resetPath_def cleanLastElement_def
      split: option.splits)



end
